theory Spec2Isabelle
  imports Main
begin

section \<open>The client side of image building: mounts, layers, images (polyester/image.py)\<close>

text \<open>
  The module talks to a remote service through \<open>client.stub\<close> and reads the local file
  system. Both are outside the module, so they are parameters of the model:
  \<^item> every request the module sends, every response of a response stream it consumes and
    every file it opens is appended to a trace of events, in the order in which the
    module's own control flow reaches them;
  \<^item> the remote side is a record of handlers, one per RPC; a handler sees the whole trace
    up to and including the request it answers, and returns a response or an error (the
    exception the call raises);
  \<^item> objects that are shared by reference (layers, mounts, images) live in heaps, lists
    indexed by address; a constructor appends to the heap.
  Logging calls have no effect on the state and are left out.
\<close>

subsection \<open>Values of the Python run time\<close>

type_synonym bytes = string
type_synonym ref = nat

datatype error =
    RpcError string          \<comment> \<open>a remote call raised\<close>
  | OSError string           \<comment> \<open>\<open>open(filename, 'rb')\<close> raised\<close>
  | KeyError string          \<comment> \<open>a dictionary has no such key\<close>
  | Exception string         \<comment> \<open>\<open>raise Exception(msg)\<close>\<close>

definition digit_char :: "nat \<Rightarrow> char" where
  "digit_char d = ''0123456789'' ! d"

function str_nat :: "nat \<Rightarrow> string" where
  "str_nat n = (if n < 10 then [digit_char n] else str_nat (n div 10) @ [digit_char (n mod 10)])"
  by pat_completeness auto
termination
  by (relation "measure id") auto

declare str_nat.simps [simp del]

text \<open>\<open>'%s' % n\<close> and \<open>'%d' % n\<close> for an integer \<open>n\<close>.\<close>

definition str_int :: "int \<Rightarrow> string" where
  "str_int i = (if i < 0 then CHR ''-'' # str_nat (nat (- i)) else str_nat (nat i))"

text \<open>Truthiness of an optional string: \<open>None\<close> and \<open>''\<close> are false.\<close>

definition truthy :: "string option \<Rightarrow> bool" where
  "truthy v = (case v of None \<Rightarrow> False | Some s \<Rightarrow> s \<noteq> [])"

subsection \<open>Messages and events\<close>

text \<open>\<open>api_pb2.BaseLayer\<close>, \<open>api_pb2.LayerContextFile\<close>, \<open>api_pb2.Layer\<close>.\<close>

record BaseLayer =
  docker_tag :: string
  base_layer_id :: string

record LayerContextFile =
  context_filename :: string
  context_data :: bytes

record LayerDefinition =
  def_tag :: "string option"
  def_base_layers :: "BaseLayer list"
  def_dockerfile_commands :: "string list"
  def_context_files :: "LayerContextFile list"

text \<open>
  The events of a run. The first argument of \<open>LayerCreateRequest\<close> is the heap address of
  the Layer instance that sends the request; it is not part of the message and is kept
  so that requests can be attributed to instances.
\<close>

datatype event =
    Walk string                                        \<comment> \<open>\<open>os.walk(local_dir)\<close>\<close>
  | Open string                                        \<comment> \<open>\<open>open(filename, 'rb').read()\<close>\<close>
  | MountCreateRequest string                          \<comment> \<open>client_id\<close>
  | MountRegisterFileRequest string string string      \<comment> \<open>filename, sha256_hex, mount_id\<close>
  | MountRegisterFileResponse string bool              \<comment> \<open>filename, exists\<close>
  | MountUploadFileRequest bytes string nat string     \<comment> \<open>data, sha256_hex, size, mount_id\<close>
  | MountDoneRequest string                            \<comment> \<open>mount_id\<close>
  | LayerCreateRequest ref string LayerDefinition      \<comment> \<open>(sender), client_id, layer\<close>
  | ImageCreateRequest string "string option" "string list"  \<comment> \<open>client_id, layer_id, mount_ids\<close>
  | ImageJoinRequest "string option" nat nat           \<comment> \<open>image_id, timeout; per-call timeout\<close>

text \<open>\<open>api_pb2.GenericResult\<close> and the response of \<open>ImageJoin\<close>.\<close>

record 'p GenericResult =
  status :: int
  exception :: string
  payload :: 'p

record 'p ImageJoinResponse =
  result :: "'p GenericResult"

text \<open>
  The client: its id and the stub. \<open>MountRegisterFile\<close> answers the register request that
  ends the trace with one response (file name and existence flag): the response stream is
  correlated with the request stream by position. \<open>MountUploadFile_write\<close> is the outcome
  of sending one upload message, \<open>MountUploadFile\<close> the outcome of the call once its
  request stream has ended. \<open>ImageJoin\<close> is the call as wrapped by \<open>retry\<close>
  (polyester/async_utils.py, not part of the sources): whatever the wrapper does about
  transport errors, the handler gives the outcome of the wrapped call.
\<close>

record 'p client =
  client_id :: string
  MountCreate :: "event list \<Rightarrow> error + string"
  MountRegisterFile :: "event list \<Rightarrow> error + string \<times> bool"
  MountUploadFile_write :: "event list \<Rightarrow> error + unit"
  MountUploadFile :: "event list \<Rightarrow> error + unit"
  MountDone :: "event list \<Rightarrow> error + unit"
  LayerCreate :: "event list \<Rightarrow> error + string"
  ImageCreate :: "event list \<Rightarrow> error + string"
  ImageJoin :: "event list \<Rightarrow> error + 'p ImageJoinResponse"

text \<open>
  Names the module imports from modules that are not part of the sources
  (polyester/proto/api_pb2, polyester/grpc_utils): the numeric values of
  \<open>GenericResult.Status.FAILURE\<close> and \<open>GenericResult.Status.SUCCESS\<close>, and the two
  timeouts. They are parameters.
\<close>

record imported =
  Status_FAILURE :: int
  Status_SUCCESS :: int
  BLOCKING_REQUEST_TIMEOUT :: nat
  GRPC_REQUEST_TIMEOUT :: nat

subsection \<open>Image.join\<close>

record Image =
  layer :: ref
  mounts :: "ref list"
  image_id :: "string option"

text \<open>
  The polling loop \<open>while True\<close> of \<open>Image.join\<close>. It need not end: \<open>None\<close> is a run
  that polls forever. A status that is false (0) polls again.
\<close>

definition join_request :: "imported \<Rightarrow> string option \<Rightarrow> event" where
  "join_request imp iid =
     ImageJoinRequest iid (BLOCKING_REQUEST_TIMEOUT imp) (GRPC_REQUEST_TIMEOUT imp)"

partial_function (option) join_loop ::
  "imported \<Rightarrow> 'p client \<Rightarrow> string option \<Rightarrow> event list
    \<Rightarrow> ((error + 'p ImageJoinResponse) \<times> event list) option" where
  "join_loop imp client iid tr =
     (let tr1 = tr @ [join_request imp iid] in
      case ImageJoin client tr1 of
        Inl e \<Rightarrow> Some (Inl e, tr1)
      | Inr response \<Rightarrow>
          if status (result response) = 0 then join_loop imp client iid tr1
          else if status (result response) = Status_FAILURE imp
            then Some (Inl (Exception (exception (result response))), tr1)
          else if status (result response) = Status_SUCCESS imp
            then Some (Inr response, tr1)
          else Some (Inl (Exception (''Unknown status '' @ str_int (status (result response)) @ ''!'')), tr1))"

definition join ::
  "imported \<Rightarrow> 'p client \<Rightarrow> 'a Image_scheme \<Rightarrow> event list
    \<Rightarrow> ((error + 'p ImageJoinResponse) \<times> event list) option" where
  "join imp client self tr = join_loop imp client (image_id self) tr"

subsection \<open>The local file system and the interpreter\<close>

text \<open>
  \<open>walk\<close> lists the files below a directory as pairs of \<open>os.path.join(root, name)\<close> and
  its \<open>os.path.relpath\<close> to the directory, in the order of \<open>os.walk\<close>.
  \<open>completion_order\<close> is the order in which the thread pool completes the tasks it was
  given (\<open>asyncio.as_completed\<close>); in a real run it permutes its argument, and nothing
  below depends on which permutation it is. \<open>contents\<close> is \<open>open(filename, 'rb').read()\<close>,
  \<open>sha256_hexdigest\<close> is \<open>hashlib.sha256\<close> followed by \<open>hexdigest\<close>, and
  \<open>version_info\<close> is \<open>sys.version_info[:3]\<close>.
\<close>

record host =
  walk :: "string \<Rightarrow> (string \<times> string) list"
  completion_order :: "(string \<times> string) list \<Rightarrow> (string \<times> string) list"
  contents :: "string \<Rightarrow> error + bytes"
  sha256_hexdigest :: "bytes \<Rightarrow> string"
  version_info :: "nat \<times> nat \<times> nat"

text \<open>\<open>os.path.join(a, b)\<close> of posixpath, for two arguments.\<close>

definition os_path_join :: "string \<Rightarrow> string \<Rightarrow> string" where
  "os_path_join a b =
     (if b \<noteq> [] \<and> hd b = CHR ''/'' then b
      else if a = [] \<or> last a = CHR ''/'' then a @ b
      else a @ ''/'' @ b)"

text \<open>
  \<open>os.path.splitext(p)[-1]\<close> of posixpath: the extension starts at the last dot of the
  last path component, unless only dots precede it there.
\<close>

definition splitext_ext :: "string \<Rightarrow> string" where
  "splitext_ext p =
     (let base = rev (takeWhile (\<lambda>c. c \<noteq> CHR ''/'') (rev p));
          ext = rev (takeWhile (\<lambda>c. c \<noteq> CHR ''.'') (rev base));
          stem = take (length base - length ext - 1) base
      in if CHR ''.'' \<in> set base \<and> (\<exists>c \<in> set stem. c \<noteq> CHR ''.'') then CHR ''.'' # ext else [])"

type_synonym file_entry = "string \<times> string \<times> string"

definition get_sha256_hex :: "host \<Rightarrow> string \<Rightarrow> string \<Rightarrow> error + file_entry" where
  "get_sha256_hex host filename rel_filename =
     (case contents host filename of
        Inl e \<Rightarrow> Inl e
      | Inr d \<Rightarrow> Inr (filename, rel_filename, sha256_hexdigest host d))"

text \<open>
  \<open>get_files\<close>: the events of the enumeration and the hashing tasks (all are submitted
  before the first result is awaited), and the lazy sequence of results; a task that
  raised raises when the consumer reaches it.
\<close>

definition get_files ::
  "host \<Rightarrow> string \<Rightarrow> (string \<Rightarrow> bool) \<Rightarrow> event list \<times> (error + file_entry) list" where
  "get_files host dir cond =
     (let futs = completion_order host (filter (\<lambda>(filename, rel_filename). cond filename) (walk host dir))
      in (Walk dir # map (\<lambda>(filename, rel_filename). Open filename) futs,
          map (\<lambda>(filename, rel_filename). get_sha256_hex host filename rel_filename) futs))"

subsection \<open>Mount\<close>

record Mount =
  local_dir :: string
  remote_dir :: string
  mount_id :: "string option"
  condition :: "string \<Rightarrow> bool"
  hashes :: "string \<rightharpoonup> string"
  remote_to_local_filename :: "string \<rightharpoonup> string"

text \<open>
  The two generators \<open>_register_file_requests\<close> and \<open>_upload_file_requests\<close> and the two
  streaming calls that consume them form one pipeline, driven by demand:
  \<open>MountUploadFile\<close> asks \<open>_upload_file_requests\<close> for a message, which asks the response
  stream of \<open>MountRegisterFile\<close> for a response, which asks \<open>_register_file_requests\<close> for
  a request, which asks \<open>get_files\<close> for an entry. One round of the pipeline per entry:
  the entry is recorded in the two dictionaries and registered, its response is read, and
  if the file does not exist remotely it is read and its upload message is sent, before
  the next entry is asked for.
\<close>

fun upload_file_requests_loop ::
  "host \<Rightarrow> 'p client \<Rightarrow> string \<Rightarrow> (error + file_entry) list \<Rightarrow> Mount \<Rightarrow> event list
    \<Rightarrow> (error + unit) \<times> Mount \<times> event list" where
  "upload_file_requests_loop host client mid [] self tr = (Inr (), self, tr)"
| "upload_file_requests_loop host client mid (Inl e # rest) self tr = (Inl e, self, tr)"
| "upload_file_requests_loop host client mid (Inr (filename, rel_filename, sha256_hex) # rest) self tr =
     (let remote_filename = os_path_join (remote_dir self) rel_filename;
          self1 = self\<lparr>remote_to_local_filename :=
                    (remote_to_local_filename self)(remote_filename \<mapsto> filename)\<rparr>;
          self2 = self1\<lparr>hashes := (hashes self1)(filename \<mapsto> sha256_hex)\<rparr>;
          tr1 = tr @ [MountRegisterFileRequest remote_filename sha256_hex mid]
      in case MountRegisterFile client tr1 of
           Inl e \<Rightarrow> (Inl e, self2, tr1)
         | Inr (response_filename, response_exists) \<Rightarrow>
             let tr2 = tr1 @ [MountRegisterFileResponse response_filename response_exists] in
             if \<not> response_exists then
               (case remote_to_local_filename self2 response_filename of
                  None \<Rightarrow> (Inl (KeyError response_filename), self2, tr2)
                | Some fname \<Rightarrow>
                    let tr3 = tr2 @ [Open fname] in
                    (case contents host fname of
                       Inl e \<Rightarrow> (Inl e, self2, tr3)
                     | Inr d \<Rightarrow>
                         (case hashes self2 fname of
                            None \<Rightarrow> (Inl (KeyError fname), self2, tr3)
                          | Some h \<Rightarrow>
                              let tr4 = tr3 @ [MountUploadFileRequest d h (length d) mid] in
                              (case MountUploadFile_write client tr4 of
                                 Inl e \<Rightarrow> (Inl e, self2, tr4)
                               | Inr u \<Rightarrow> upload_file_requests_loop host client mid rest self2 tr4))))
             else upload_file_requests_loop host client mid rest self2 tr2)"

definition upload_file_requests ::
  "host \<Rightarrow> 'p client \<Rightarrow> string \<Rightarrow> Mount \<Rightarrow> event list \<Rightarrow> (error + unit) \<times> Mount \<times> event list" where
  "upload_file_requests host client mid self tr =
     (let (evs, entries) = get_files host (local_dir self) (condition self)
      in upload_file_requests_loop host client mid entries self (tr @ evs))"

text \<open>\<open>Mount.start\<close>. The guard \<open>if self.mount_id:\<close> tests truthiness.\<close>

definition Mount_start ::
  "host \<Rightarrow> 'p client \<Rightarrow> Mount \<Rightarrow> event list \<Rightarrow> (error + string) \<times> Mount \<times> event list" where
  "Mount_start host client self tr =
     (if truthy (mount_id self) then (Inr (the (mount_id self)), self, tr)
      else
        let tr1 = tr @ [MountCreateRequest (client_id client)] in
        case MountCreate client tr1 of
          Inl e \<Rightarrow> (Inl e, self, tr1)
        | Inr mid \<Rightarrow>
            (case upload_file_requests host client mid self tr1 of
               (Inl e, self2, tr2) \<Rightarrow> (Inl e, self2, tr2)
             | (Inr u, self2, tr2) \<Rightarrow>
                 (case MountUploadFile client tr2 of
                    Inl e \<Rightarrow> (Inl e, self2, tr2)
                  | Inr u \<Rightarrow>
                      let tr3 = tr2 @ [MountDoneRequest mid] in
                      (case MountDone client tr3 of
                         Inl e \<Rightarrow> (Inl e, self2, tr3)
                       | Inr u \<Rightarrow> (Inr mid, self2\<lparr>mount_id := Some mid\<rparr>, tr3)))))"

subsection \<open>Layer\<close>

text \<open>
  \<open>base_layers\<close> and \<open>context_files\<close> are dictionaries; their items are iterated in
  insertion order, so they are lists of pairs. A base layer is a reference to another
  Layer instance.
\<close>

record Layer =
  layer_id :: "string option"
  tag :: "string option"
  base_layers :: "(string \<times> ref) list"
  dockerfile_commands :: "string list"
  context_files :: "(string \<times> bytes) list"

record DebianSlim = Image +
  python_version :: string

record world =
  mount_heap :: "Mount list"
  layer_heap :: "Layer list"
  image_heap :: "DebianSlim list"
  trace :: "event list"

definition Layer_init ::
  "string option \<Rightarrow> (string \<times> ref) list \<Rightarrow> string list \<Rightarrow> (string \<times> bytes) list \<Rightarrow> world
    \<Rightarrow> ref \<times> world" where
  "Layer_init t bs cmds files w =
     (length (layer_heap w),
      w\<lparr>layer_heap := layer_heap w @
         [\<lparr>layer_id = None, tag = t, base_layers = bs, dockerfile_commands = cmds,
           context_files = files\<rparr>]\<rparr>)"

text \<open>
  The loop of \<open>Layer.start\<close> over \<open>self.base_layers.items()\<close>; \<open>start\<close> is the
  recursive call.
\<close>

fun start_base_layers ::
  "(ref \<Rightarrow> world \<Rightarrow> ((error + string) \<times> world) option) \<Rightarrow> (string \<times> ref) list
    \<Rightarrow> BaseLayer list \<Rightarrow> world \<Rightarrow> ((error + BaseLayer list) \<times> world) option" where
  "start_base_layers start [] acc w = Some (Inr acc, w)"
| "start_base_layers start ((dtag, l) # rest) acc w =
     (case start l w of
        None \<Rightarrow> None
      | Some (Inl e, w1) \<Rightarrow> Some (Inl e, w1)
      | Some (Inr lid, w1) \<Rightarrow>
          start_base_layers start rest (acc @ [\<lparr>docker_tag = dtag, base_layer_id = lid\<rparr>]) w1)"

definition layer_definition :: "Layer \<Rightarrow> BaseLayer list \<Rightarrow> LayerDefinition" where
  "layer_definition self bls =
     \<lparr>def_tag = tag self, def_base_layers = bls,
      def_dockerfile_commands = dockerfile_commands self,
      def_context_files =
        map (\<lambda>(f, d). \<lparr>context_filename = f, context_data = d\<rparr>) (context_files self)\<rparr>"

text \<open>
  \<open>Layer.start\<close>, on the instance at address \<open>r\<close>. The recursion follows the references
  of the heap and is bounded by the first argument, the depth still allowed: \<open>None\<close> is a
  run that exceeds it.
\<close>

fun Layer_start :: "nat \<Rightarrow> 'p client \<Rightarrow> ref \<Rightarrow> world \<Rightarrow> ((error + string) \<times> world) option" where
  "Layer_start 0 client r w = None"
| "Layer_start (Suc n) client r w =
     (case layer_id (layer_heap w ! r) of
        Some lid \<Rightarrow> Some (Inr lid, w)
      | None \<Rightarrow>
          (case start_base_layers (Layer_start n client) (base_layers (layer_heap w ! r)) [] w of
             None \<Rightarrow> None
           | Some (Inl e, w1) \<Rightarrow> Some (Inl e, w1)
           | Some (Inr bls, w1) \<Rightarrow>
               let tr1 = trace w1 @
                     [LayerCreateRequest r (client_id client) (layer_definition (layer_heap w1 ! r) bls)]
               in (case LayerCreate client tr1 of
                     Inl e \<Rightarrow> Some (Inl e, w1\<lparr>trace := tr1\<rparr>)
                   | Inr lid \<Rightarrow>
                       Some (Inr lid,
                             w1\<lparr>trace := tr1,
                                layer_heap := (layer_heap w1)[r := (layer_heap w1 ! r)\<lparr>layer_id := Some lid\<rparr>]\<rparr>))))"

subsection \<open>The module's objects and the builders of DebianSlim\<close>

definition Mount_init :: "string \<Rightarrow> string \<Rightarrow> (string \<Rightarrow> bool) \<Rightarrow> world \<Rightarrow> ref \<times> world" where
  "Mount_init ldir rdir cond w =
     (length (mount_heap w),
      w\<lparr>mount_heap := mount_heap w @
         [\<lparr>local_dir = ldir, remote_dir = rdir, mount_id = None, condition = cond,
           hashes = Map.empty, remote_to_local_filename = Map.empty\<rparr>]\<rparr>)"

text \<open>
  The module creates its default mount before any other object, so the global
  \<open>mount_py_in_workdir_into_root\<close> is the first address of the mount heap.
\<close>

definition mount_py_in_workdir_into_root :: ref where
  "mount_py_in_workdir_into_root = 0"

definition version_string :: "nat \<times> nat \<times> nat \<Rightarrow> string" where
  "version_string v =
     (case v of (major, minor, micro) \<Rightarrow>
        str_int (int major) @ ''.'' @ str_int (int minor) @ ''.'' @ str_int (int micro))"

definition DebianSlim_init :: "host \<Rightarrow> ref option \<Rightarrow> string option \<Rightarrow> world \<Rightarrow> ref \<times> world" where
  "DebianSlim_init host layer_arg python_version_arg w =
     (let pv = (case python_version_arg of None \<Rightarrow> version_string (version_info host) | Some v \<Rightarrow> v);
          (l, w1) = (case layer_arg of
                       None \<Rightarrow> Layer_init (Some (''python-'' @ pv @ ''-slim-buster-base'')) [] [] [] w
                     | Some l \<Rightarrow> (l, w))
      in (length (image_heap w1),
          w1\<lparr>image_heap := image_heap w1 @
             [\<lparr>layer = l, mounts = [mount_py_in_workdir_into_root], image_id = None,
               python_version = pv\<rparr>]\<rparr>))"

text \<open>\<open>' '.join(xs)\<close>.\<close>

fun join_spaces :: "string list \<Rightarrow> string" where
  "join_spaces [] = []"
| "join_spaces [x] = x"
| "join_spaces (x # y # ys) = x @ '' '' @ join_spaces (y # ys)"

definition add_python_packages :: "host \<Rightarrow> ref \<Rightarrow> string list \<Rightarrow> world \<Rightarrow> ref \<times> world" where
  "add_python_packages host self python_packages w =
     (let (builder, w1) =
            Layer_init (Some (''python-'' @ python_version (image_heap w ! self) @ ''-slim-buster-builder''))
              [] [] [] w;
          (l, w2) =
            Layer_init None
              [(''base'', layer (image_heap w ! self)), (''builder'', builder)]
              [''FROM builder as builder-vehicle'',
               ''RUN pip wheel '' @ join_spaces python_packages @ '' -w /tmp/wheels'',
               ''FROM base'',
               ''COPY --from=builder-vehicle /tmp/wheels /tmp/wheels'',
               ''RUN pip install /tmp/wheels/*'',
               ''RUN rm -rf /tmp/wheels'']
              [] w1
      in DebianSlim_init host (Some l) None w2)"

definition run_commands :: "host \<Rightarrow> ref \<Rightarrow> string list \<Rightarrow> world \<Rightarrow> ref \<times> world" where
  "run_commands host self commands w =
     (let (l, w1) =
            Layer_init None [(''base'', layer (image_heap w ! self))]
              (''FROM base'' # map (\<lambda>command. ''RUN '' @ command) commands) [] w
      in DebianSlim_init host (Some l) None w1)"

text \<open>
  What the module does when it is imported: it creates the default mount and then
  \<open>debian_slim = DebianSlim()\<close>.
\<close>

definition module_init :: "host \<Rightarrow> ref \<times> world" where
  "module_init host =
     (let (m, w1) = Mount_init ''.'' ''/root'' (\<lambda>filename. splitext_ext filename = ''.py'')
                      \<lparr>mount_heap = [], layer_heap = [], image_heap = [], trace = []\<rparr>
      in DebianSlim_init host None None w1)"

subsection \<open>Stubs and hosts for concrete runs\<close>

definition unavailable :: "event list \<Rightarrow> error + 'a" where
  "unavailable tr = Inl (RpcError ''unavailable'')"

definition is_join :: "event \<Rightarrow> bool" where
  "is_join e = (case e of ImageJoinRequest _ _ _ \<Rightarrow> True | _ \<Rightarrow> False)"

text \<open>A stub that answers the \<open>k\<close>-th \<open>ImageJoin\<close> of a trace with the \<open>k\<close>-th response of a script.\<close>

definition scripted_join :: "'p ImageJoinResponse list \<Rightarrow> event list \<Rightarrow> error + 'p ImageJoinResponse" where
  "scripted_join rs tr =
     (let k = length (filter is_join tr) in
      if 0 < k \<and> k \<le> length rs then Inr (rs ! (k - 1)) else Inl (RpcError ''unavailable''))"

definition join_stub :: "'p ImageJoinResponse list \<Rightarrow> 'p client" where
  "join_stub rs =
     \<lparr>client_id = ''cl-1'', MountCreate = unavailable, MountRegisterFile = unavailable,
      MountUploadFile_write = unavailable, MountUploadFile = unavailable, MountDone = unavailable,
      LayerCreate = unavailable, ImageCreate = unavailable, ImageJoin = scripted_join rs\<rparr>"

definition response :: "int \<Rightarrow> string \<Rightarrow> 'p \<Rightarrow> 'p ImageJoinResponse" where
  "response st ex p = \<lparr>result = \<lparr>status = st, exception = ex, payload = p\<rparr>\<rparr>"

definition imported0 :: imported where
  "imported0 = \<lparr>Status_FAILURE = 2, Status_SUCCESS = 1, BLOCKING_REQUEST_TIMEOUT = 60,
     GRPC_REQUEST_TIMEOUT = 5\<rparr>"

definition image0 :: Image where
  "image0 = \<lparr>layer = 0, mounts = [], image_id = Some ''im-1''\<rparr>"

text \<open>
  A stub for mounts: it creates the mount \<open>mid\<close>, answers each register request with the
  request's own file name and the flag \<open>present\<close> gives it, and accepts everything else.
\<close>

definition echo_register :: "(string \<Rightarrow> bool) \<Rightarrow> event list \<Rightarrow> error + string \<times> bool" where
  "echo_register present tr =
     (case rev tr of
        MountRegisterFileRequest f h m # _ \<Rightarrow> Inr (f, present f)
      | _ \<Rightarrow> Inl (RpcError ''unavailable''))"

definition accepted :: "event list \<Rightarrow> error + unit" where
  "accepted tr = Inr ()"

definition mount_stub :: "string \<Rightarrow> (string \<Rightarrow> bool) \<Rightarrow> unit client" where
  "mount_stub mid present =
     \<lparr>client_id = ''cl-1'', MountCreate = (\<lambda>tr. Inr mid), MountRegisterFile = echo_register present,
      MountUploadFile_write = accepted, MountUploadFile = accepted, MountDone = accepted,
      LayerCreate = unavailable, ImageCreate = unavailable, ImageJoin = unavailable\<rparr>"

text \<open>
  A host whose working directory holds \<open>a.py\<close>, \<open>b.py\<close> and \<open>notes.txt\<close>; the hashing of
  \<open>b.py\<close> completes first. The digest of \<open>d\<close> is written \<open>#d\<close>.
\<close>

definition host0 :: host where
  "host0 =
     \<lparr>walk = (\<lambda>d. [(''./a.py'', ''a.py''), (''./b.py'', ''b.py''), (''./notes.txt'', ''notes.txt'')]),
      completion_order = rev,
      contents = (\<lambda>f. if f = ''./a.py'' then Inr ''aa'' else if f = ''./b.py'' then Inr ''b''
                       else Inl (OSError f)),
      sha256_hexdigest = (\<lambda>d. ''#'' @ d),
      version_info = (3, 9, 7)\<rparr>"

definition mount0 :: Mount where
  "mount0 =
     \<lparr>local_dir = ''.'', remote_dir = ''/root'', mount_id = None,
      condition = (\<lambda>filename. splitext_ext filename = ''.py''),
      hashes = Map.empty, remote_to_local_filename = Map.empty\<rparr>"

text \<open>The same stub with a \<open>MountDone\<close> that fails.\<close>

definition mount_stub_done_fails :: "string \<Rightarrow> (string \<Rightarrow> bool) \<Rightarrow> unit client" where
  "mount_stub_done_fails mid present = (mount_stub mid present)\<lparr>MountDone := unavailable\<rparr>"

text \<open>The default mount after its two files have been registered.\<close>

definition mount1 :: Mount where
  "mount1 = mount0\<lparr>
     hashes := [''./b.py'' \<mapsto> ''#b'', ''./a.py'' \<mapsto> ''#aa''],
     remote_to_local_filename := [''/root/b.py'' \<mapsto> ''./b.py'', ''/root/a.py'' \<mapsto> ''./a.py'']\<rparr>"

text \<open>
  A world with four layers: a leaf at address 0, two layers at 1 and 2 that both have the
  leaf 0 as their base, and at 3 a leaf constructed separately with the content of 0.
\<close>

definition leaf_layer :: Layer where
  "leaf_layer = \<lparr>layer_id = None, tag = Some ''python-3.9.7-slim-buster-base'', base_layers = [],
     dockerfile_commands = [], context_files = []\<rparr>"

definition child_layer :: "string \<Rightarrow> Layer" where
  "child_layer command = \<lparr>layer_id = None, tag = None, base_layers = [(''base'', 0)],
     dockerfile_commands = [''FROM base'', command], context_files = []\<rparr>"

definition layers0 :: world where
  "layers0 = \<lparr>mount_heap = [],
     layer_heap = [leaf_layer, child_layer ''RUN a'', child_layer ''RUN b'', leaf_layer],
     image_heap = [], trace = []\<rparr>"

text \<open>
  A stub for layers: the id it assigns is \<open>la-\<close> followed by the number of events so far;
  requests of the instances in \<open>refused\<close> fail.
\<close>

definition layer_create :: "ref list \<Rightarrow> event list \<Rightarrow> error + string" where
  "layer_create refused tr =
     (case rev tr of
        LayerCreateRequest r c d # _ \<Rightarrow>
          if r \<in> set refused then Inl (RpcError ''unavailable'') else Inr (''la-'' @ str_nat (length tr))
      | _ \<Rightarrow> Inl (RpcError ''unavailable''))"

definition layer_stub :: "ref list \<Rightarrow> unit client" where
  "layer_stub refused =
     \<lparr>client_id = ''cl-1'', MountCreate = unavailable, MountRegisterFile = unavailable,
      MountUploadFile_write = unavailable, MountUploadFile = unavailable, MountDone = unavailable,
      LayerCreate = layer_create refused, ImageCreate = unavailable, ImageJoin = unavailable\<rparr>"

text \<open>The same world after the leaf at address 0 has been created remotely as \<open>la-1\<close>.\<close>

definition layers1 :: world where
  "layers1 = layers0\<lparr>
     layer_heap := (layer_heap layers0)[0 := leaf_layer\<lparr>layer_id := Some ''la-1''\<rparr>],
     trace := [LayerCreateRequest 0 ''cl-1'' (layer_definition leaf_layer [])]\<rparr>"

subsection \<open>Reading traces\<close>

fun register_request_of :: "event \<Rightarrow> (string \<times> string \<times> string) option" where
  "register_request_of (MountRegisterFileRequest f s m) = Some (f, s, m)"
| "register_request_of e = None"

fun register_response_of :: "event \<Rightarrow> (string \<times> bool) option" where
  "register_response_of (MountRegisterFileResponse f ex) = Some (f, ex)"
| "register_response_of e = None"

fun upload_request_of :: "event \<Rightarrow> (bytes \<times> string \<times> nat \<times> string) option" where
  "upload_request_of (MountUploadFileRequest d s n m) = Some (d, s, n, m)"
| "upload_request_of e = None"

definition register_requests :: "event list \<Rightarrow> (string \<times> string \<times> string) list" where
  "register_requests tr = List.map_filter register_request_of tr"

definition register_responses :: "event list \<Rightarrow> (string \<times> bool) list" where
  "register_responses tr = List.map_filter register_response_of tr"

definition upload_requests :: "event list \<Rightarrow> (bytes \<times> string \<times> nat \<times> string) list" where
  "upload_requests tr = List.map_filter upload_request_of tr"

text \<open>
  The contract of \<open>MountRegisterFile\<close>: the response to a register request names the
  file of that request.
\<close>

definition echoes :: "'p client \<Rightarrow> bool" where
  "echoes client \<longleftrightarrow>
     (\<forall>h f s m r. MountRegisterFile client (h @ [MountRegisterFileRequest f s m]) = Inr r \<longrightarrow> fst r = f)"

text \<open>
  What a mount synchronization leaves in a trace: the entries \<open>es\<close> were registered, in
  this order, under their remote names and with their digests; the responses carried the
  flags \<open>flags\<close>; and the upload messages are, in order, one for each entry whose flag is
  false, with the contents of the entry's file, the entry's digest and the length of the
  contents.
\<close>

definition upload_matches :: "host \<Rightarrow> string \<Rightarrow> file_entry \<times> bool \<Rightarrow> bytes \<times> string \<times> nat \<times> string \<Rightarrow> bool" where
  "upload_matches host mid entry_flag msg =
     (case (entry_flag, msg) of
        (((filename, rel_filename, sha256_hex), ex), (d, sha, n, m)) \<Rightarrow>
          contents host filename = Inr d \<and> sha = sha256_hex \<and> n = length d \<and> m = mid)"

definition synchronized ::
  "host \<Rightarrow> string \<Rightarrow> string \<Rightarrow> file_entry list \<Rightarrow> bool list \<Rightarrow> event list \<Rightarrow> bool" where
  "synchronized host mid rdir es flags new \<longleftrightarrow>
     length flags = length es \<and>
     register_requests new = map (\<lambda>(filename, rel_filename, sha256_hex). (os_path_join rdir rel_filename, sha256_hex, mid)) es \<and>
     register_responses new = zip (map (\<lambda>(filename, rel_filename, sha256_hex). os_path_join rdir rel_filename) es) flags \<and>
     list_all2 (upload_matches host mid) (filter (\<lambda>(e, ex). \<not> ex) (zip es flags)) (upload_requests new)"

definition is_upload :: "event \<Rightarrow> bool" where
  "is_upload e = (case e of MountUploadFileRequest d s n m \<Rightarrow> True | _ \<Rightarrow> False)"

definition is_registration :: "event \<Rightarrow> bool" where
  "is_registration e =
     (case e of MountRegisterFileRequest f s m \<Rightarrow> True | MountRegisterFileResponse f ex \<Rightarrow> True
      | _ \<Rightarrow> False)"

text \<open>
  Two orders of the messages of a synchronization. In the first, registration is a phase
  that ends before the first upload message: nothing of the registration (request or
  response) comes after an upload message. In the second, every upload message comes
  directly after the register request of its own digest and mount, the response to it with
  a false flag, and the reading of the file.
\<close>

definition registration_precedes_uploads :: "event list \<Rightarrow> bool" where
  "registration_precedes_uploads tr \<longleftrightarrow>
     (\<forall>i j. i < j \<and> j < length tr \<and> is_upload (tr ! i) \<longrightarrow> \<not> is_registration (tr ! j))"

definition uploads_follow_own_registration :: "event list \<Rightarrow> bool" where
  "uploads_follow_own_registration new \<longleftrightarrow>
     (\<forall>pre d s n m post. new = pre @ MountUploadFileRequest d s n m # post \<longrightarrow>
        (\<exists>pre' rf f. pre = pre' @
           [MountRegisterFileRequest rf s m, MountRegisterFileResponse rf False, Open f]))"

text \<open>The request that ends the trace \<open>h\<close> is answered with the error \<open>e\<close>.\<close>

definition request_fails :: "'p client \<Rightarrow> event list \<Rightarrow> error \<Rightarrow> bool" where
  "request_fails client h e \<longleftrightarrow>
     h \<noteq> [] \<and>
     (case last h of
        MountCreateRequest c \<Rightarrow> MountCreate client h = Inl e
      | MountRegisterFileRequest f s m \<Rightarrow> MountRegisterFile client h = Inl e
      | MountUploadFileRequest d s n m \<Rightarrow> MountUploadFile_write client h = Inl e
      | MountDoneRequest m \<Rightarrow> MountDone client h = Inl e
      | _ \<Rightarrow> False)"

text \<open>
  \<open>aborts_at_failure client tr res new\<close>: in a run that starts from the trace \<open>tr\<close>, adds the
  events \<open>new\<close> and ends with \<open>res\<close>, a request that is answered with an error is the last
  event of the run, and its error is the result.
\<close>

definition aborts_at_failure :: "'p client \<Rightarrow> event list \<Rightarrow> error + 'a \<Rightarrow> event list \<Rightarrow> bool" where
  "aborts_at_failure client tr res new \<longleftrightarrow>
     (\<forall>p s e. new = p @ s \<and> p \<noteq> [] \<and> request_fails client (tr @ p) e \<longrightarrow> s = [] \<and> res = Inl e)"

text \<open>No Mount instance is in the \<open>mounts\<close> list of two distinct Image instances.\<close>

definition mounts_exclusive :: "world \<Rightarrow> bool" where
  "mounts_exclusive w \<longleftrightarrow>
     (\<forall>i j m. i < length (image_heap w) \<and> j < length (image_heap w) \<and> i \<noteq> j \<and>
        m \<in> set (mounts (image_heap w ! i)) \<longrightarrow> m \<notin> set (mounts (image_heap w ! j)))"

subsection \<open>Reading layer heaps\<close>

text \<open>
  A heap of layers as the constructors build it: the base layers of a layer exist when the
  layer is constructed, so their addresses are below its own.
\<close>

definition wf_layers :: "world \<Rightarrow> bool" where
  "wf_layers w \<longleftrightarrow>
     (\<forall>r < length (layer_heap w). \<forall>tb \<in> set (base_layers (layer_heap w ! r)). snd tb < r)"

text \<open>The number of \<open>LayerCreate\<close> requests that the instance at address \<open>x\<close> sent in a trace.\<close>

fun creator :: "event \<Rightarrow> ref option" where
  "creator (LayerCreateRequest r c d) = Some r"
| "creator e = None"

definition creates :: "ref \<Rightarrow> event list \<Rightarrow> nat" where
  "creates x tr = length (filter (\<lambda>e. creator e = Some x) tr)"

text \<open>
  What a run of \<open>Layer.start\<close> may do to one layer that sent \<open>n\<close> requests in it, when the
  run ends without error iff \<open>ok\<close>: the layer is either as before, or it had no id, sent
  exactly one \<open>LayerCreate\<close> and now has an id; a layer that had an id, or that is not
  \<open>below\<close> the layers the run concerns, is as before and sent nothing; no layer sent more
  than one request, and in a run without error a layer that is as before sent none.
\<close>

definition layer_change :: "Layer \<Rightarrow> Layer \<Rightarrow> nat \<Rightarrow> bool \<Rightarrow> bool \<Rightarrow> bool" where
  "layer_change old new n below ok \<longleftrightarrow>
     (\<not> below \<longrightarrow> new = old \<and> n = 0) \<and>
     (layer_id old \<noteq> None \<longrightarrow> new = old \<and> n = 0) \<and>
     (new = old \<or> n = 1 \<and> (\<exists>lid. new = old\<lparr>layer_id := Some lid\<rparr>)) \<and>
     n \<le> 1 \<and>
     (ok \<and> new = old \<longrightarrow> n = 0)"

definition layer_run :: "world \<Rightarrow> world \<Rightarrow> event list \<Rightarrow> nat \<Rightarrow> bool \<Rightarrow> bool" where
  "layer_run w w' new bound ok \<longleftrightarrow>
     wf_layers w' \<and> length (layer_heap w') = length (layer_heap w) \<and> trace w' = trace w @ new \<and>
     (\<forall>x < length (layer_heap w).
        layer_change (layer_heap w ! x) (layer_heap w' ! x) (creates x new) (x < bound) ok)"

section \<open>Properties\<close>

subsection \<open>Image.join\<close>

lemma join_loop_error:
  "ImageJoin client (tr @ [join_request imp iid]) = Inl e \<Longrightarrow>
   join_loop imp client iid tr = Some (Inl e, tr @ [join_request imp iid])"
  by (subst join_loop.simps) simp

lemma join_loop_pending:
  "ImageJoin client (tr @ [join_request imp iid]) = Inr r \<Longrightarrow> status (result r) = 0 \<Longrightarrow>
   join_loop imp client iid tr = join_loop imp client iid (tr @ [join_request imp iid])"
  by (subst join_loop.simps) simp

lemma join_loop_failure:
  "ImageJoin client (tr @ [join_request imp iid]) = Inr r \<Longrightarrow> status (result r) \<noteq> 0 \<Longrightarrow>
   status (result r) = Status_FAILURE imp \<Longrightarrow>
   join_loop imp client iid tr = Some (Inl (Exception (exception (result r))), tr @ [join_request imp iid])"
  by (subst join_loop.simps) simp

lemma join_loop_success:
  "ImageJoin client (tr @ [join_request imp iid]) = Inr r \<Longrightarrow> status (result r) \<noteq> 0 \<Longrightarrow>
   status (result r) \<noteq> Status_FAILURE imp \<Longrightarrow> status (result r) = Status_SUCCESS imp \<Longrightarrow>
   join_loop imp client iid tr = Some (Inr r, tr @ [join_request imp iid])"
  by (subst join_loop.simps) simp

lemma join_loop_unknown:
  "ImageJoin client (tr @ [join_request imp iid]) = Inr r \<Longrightarrow> status (result r) \<noteq> 0 \<Longrightarrow>
   status (result r) \<noteq> Status_FAILURE imp \<Longrightarrow> status (result r) \<noteq> Status_SUCCESS imp \<Longrightarrow>
   join_loop imp client iid tr =
     Some (Inl (Exception (''Unknown status '' @ str_int (status (result r)) @ ''!'')), tr @ [join_request imp iid])"
  by (subst join_loop.simps) simp

lemma join_loop_pending_prefix:
  "(\<And>k. k < n \<Longrightarrow> \<exists>r. ImageJoin client (tr @ replicate (Suc k) (join_request imp iid)) = Inr r \<and> status (result r) = 0) \<Longrightarrow>
   join_loop imp client iid tr = join_loop imp client iid (tr @ replicate n (join_request imp iid))"
proof (induction n)
  case 0
  show ?case by simp
next
  case (Suc n)
  have a: "join_loop imp client iid tr = join_loop imp client iid (tr @ replicate n (join_request imp iid))"
    using Suc.IH Suc.prems by simp
  obtain r where r: "ImageJoin client (tr @ replicate (Suc n) (join_request imp iid)) = Inr r" "status (result r) = 0"
    using Suc.prems [of n] by auto
  have "replicate (Suc n) (join_request imp iid) = replicate n (join_request imp iid) @ [join_request imp iid]"
    by (simp add: replicate_append_same)
  with r have "ImageJoin client ((tr @ replicate n (join_request imp iid)) @ [join_request imp iid]) = Inr r"
    by simp
  from join_loop_pending [OF this r(2)] a show ?case
    by (simp add: replicate_append_same)
qed

lemma str_nat_digit: "n < 10 \<Longrightarrow> str_nat n = [digit_char n]"
  by (simp add: str_nat.simps)

text \<open>
  Claim C2. With \<open>q\<close> the request that \<open>join\<close> sends: if the first two polls are answered
  with a pending status (0) and the third with \<open>SUCCESS\<close> and payload 42, join returns that
  third response, after exactly three requests; if the first is pending and the second is
  \<open>FAILURE\<close> with diagnostic \<open>boom\<close>, join raises an exception carrying \<open>boom\<close> after
  exactly two requests; and if, after any number \<open>n\<close> of pending answers, a response has a
  status that is none of pending, \<open>FAILURE\<close>, \<open>SUCCESS\<close>, join raises the unknown-status
  exception with that request as the last one of the run: it does not poll again.
\<close>

theorem join_poll_sequences:
  assumes q: "q = join_request imp (image_id self)"
    and cs: "Status_FAILURE imp \<noteq> 0" "Status_SUCCESS imp \<noteq> 0" "Status_SUCCESS imp \<noteq> Status_FAILURE imp"
  shows "(ImageJoin client (tr @ [q]) = Inr r1 \<and> status (result r1) = 0 \<and>
          ImageJoin client (tr @ [q, q]) = Inr r2 \<and> status (result r2) = 0 \<and>
          ImageJoin client (tr @ [q, q, q]) = Inr r3 \<and> status (result r3) = Status_SUCCESS imp \<and>
          payload (result r3) = (42::int)
          \<longrightarrow> join imp client self tr = Some (Inr r3, tr @ [q, q, q]) \<and> payload (result r3) = 42)
       \<and> (ImageJoin client (tr @ [q]) = Inr r1 \<and> status (result r1) = 0 \<and>
          ImageJoin client (tr @ [q, q]) = Inr r2 \<and> status (result r2) = Status_FAILURE imp \<and>
          exception (result r2) = ''boom''
          \<longrightarrow> join imp client self tr = Some (Inl (Exception ''boom''), tr @ [q, q]))
       \<and> ((\<forall>k<n. \<exists>r. ImageJoin client (tr @ replicate (Suc k) q) = Inr r \<and> status (result r) = 0) \<and>
          ImageJoin client (tr @ replicate (Suc n) q) = Inr r0 \<and>
          status (result r0) \<notin> {0, Status_FAILURE imp, Status_SUCCESS imp}
          \<longrightarrow> join imp client self tr =
                Some (Inl (Exception (''Unknown status '' @ str_int (status (result r0)) @ ''!'')),
                      tr @ replicate (Suc n) q))"
proof -
  let ?iid = "image_id self"
  have p1: "ImageJoin client (tr @ [q]) = Inr r1 \<and> status (result r1) = 0 \<and>
          ImageJoin client (tr @ [q, q]) = Inr r2 \<and> status (result r2) = 0 \<and>
          ImageJoin client (tr @ [q, q, q]) = Inr r3 \<and> status (result r3) = Status_SUCCESS imp \<and>
          payload (result r3) = (42::int)
          \<longrightarrow> join imp client self tr = Some (Inr r3, tr @ [q, q, q]) \<and> payload (result r3) = 42"
  proof
    assume a: "ImageJoin client (tr @ [q]) = Inr r1 \<and> status (result r1) = 0 \<and>
          ImageJoin client (tr @ [q, q]) = Inr r2 \<and> status (result r2) = 0 \<and>
          ImageJoin client (tr @ [q, q, q]) = Inr r3 \<and> status (result r3) = Status_SUCCESS imp \<and>
          payload (result r3) = (42::int)"
    have 1: "join_loop imp client ?iid tr = join_loop imp client ?iid (tr @ [q])"
      using a join_loop_pending [of client tr imp ?iid r1] by (simp add: q)
    have 2: "join_loop imp client ?iid (tr @ [q]) = join_loop imp client ?iid (tr @ [q, q])"
      using a join_loop_pending [of client "tr @ [q]" imp ?iid r2] by (simp add: q)
    have 3: "join_loop imp client ?iid (tr @ [q, q]) = Some (Inr r3, tr @ [q, q, q])"
      using a cs join_loop_success [of client "tr @ [q, q]" imp ?iid r3] by (simp add: q)
    show "join imp client self tr = Some (Inr r3, tr @ [q, q, q]) \<and> payload (result r3) = 42"
      using 1 2 3 a by (simp add: join_def)
  qed
  have p2: "ImageJoin client (tr @ [q]) = Inr r1 \<and> status (result r1) = 0 \<and>
          ImageJoin client (tr @ [q, q]) = Inr r2 \<and> status (result r2) = Status_FAILURE imp \<and>
          exception (result r2) = ''boom''
          \<longrightarrow> join imp client self tr = Some (Inl (Exception ''boom''), tr @ [q, q])"
  proof
    assume a: "ImageJoin client (tr @ [q]) = Inr r1 \<and> status (result r1) = 0 \<and>
          ImageJoin client (tr @ [q, q]) = Inr r2 \<and> status (result r2) = Status_FAILURE imp \<and>
          exception (result r2) = ''boom''"
    have 1: "join_loop imp client ?iid tr = join_loop imp client ?iid (tr @ [q])"
      using a join_loop_pending [of client tr imp ?iid r1] by (simp add: q)
    have 2: "join_loop imp client ?iid (tr @ [q]) = Some (Inl (Exception ''boom''), tr @ [q, q])"
      using a cs join_loop_failure [of client "tr @ [q]" imp ?iid r2] by (simp add: q)
    show "join imp client self tr = Some (Inl (Exception ''boom''), tr @ [q, q])"
      using 1 2 by (simp add: join_def)
  qed
  have p3: "(\<forall>k<n. \<exists>r. ImageJoin client (tr @ replicate (Suc k) q) = Inr r \<and> status (result r) = 0) \<and>
          ImageJoin client (tr @ replicate (Suc n) q) = Inr r0 \<and>
          status (result r0) \<notin> {0, Status_FAILURE imp, Status_SUCCESS imp}
          \<longrightarrow> join imp client self tr =
                Some (Inl (Exception (''Unknown status '' @ str_int (status (result r0)) @ ''!'')),
                      tr @ replicate (Suc n) q)"
  proof
    assume a: "(\<forall>k<n. \<exists>r. ImageJoin client (tr @ replicate (Suc k) q) = Inr r \<and> status (result r) = 0) \<and>
          ImageJoin client (tr @ replicate (Suc n) q) = Inr r0 \<and>
          status (result r0) \<notin> {0, Status_FAILURE imp, Status_SUCCESS imp}"
    have 1: "join_loop imp client ?iid tr = join_loop imp client ?iid (tr @ replicate n q)"
    proof -
      have "\<And>k. k < n \<Longrightarrow> \<exists>r. ImageJoin client
          (tr @ replicate (Suc k) (join_request imp ?iid)) = Inr r \<and> status (result r) = 0"
        using a q by auto
      from join_loop_pending_prefix [OF this] show ?thesis by (simp add: q)
    qed
    have "ImageJoin client ((tr @ replicate n q) @ [q]) = Inr r0"
      using a by (simp add: replicate_append_same)
    then have 2: "join_loop imp client ?iid (tr @ replicate n q) =
        Some (Inl (Exception (''Unknown status '' @ str_int (status (result r0)) @ ''!'')),
              (tr @ replicate n q) @ [q])"
      using a join_loop_unknown [of client "tr @ replicate n q" imp ?iid r0] by (simp add: q)
    show "join imp client self tr =
                Some (Inl (Exception (''Unknown status '' @ str_int (status (result r0)) @ ''!'')),
                      tr @ replicate (Suc n) q)"
      using 1 2 by (simp add: join_def replicate_append_same)
  qed
  show ?thesis
    by (rule conjI [OF p1 conjI [OF p2 p3]])
qed

text \<open>The three runs of claim C2 against scripted stubs.\<close>

theorem join_poll_sequences_witness:
  "join imported0 (join_stub [response 0 [] 0, response 0 [] 0, response 1 [] (42::int)]) image0 []
     = Some (Inr (response 1 [] 42), replicate 3 (join_request imported0 (Some ''im-1'')))
   \<and> join imported0 (join_stub [response 0 [] 0, response 2 ''boom'' (0::int)]) image0 []
     = Some (Inl (Exception ''boom''), replicate 2 (join_request imported0 (Some ''im-1'')))
   \<and> join imported0 (join_stub [response 0 [] 0, response 7 [] (0::int)]) image0 []
     = Some (Inl (Exception ''Unknown status 7!''), replicate 2 (join_request imported0 (Some ''im-1'')))"
proof -
  let ?q = "join_request imported0 (Some ''im-1'')"
  have q: "?q = join_request imported0 (image_id image0)" by (simp add: image0_def)
  have c: "Status_FAILURE imported0 \<noteq> 0" "Status_SUCCESS imported0 \<noteq> 0"
      "Status_SUCCESS imported0 \<noteq> Status_FAILURE imported0"
    by (simp_all add: imported0_def)
  have A: "join imported0 (join_stub [response 0 [] 0, response 0 [] 0, response 1 [] (42::int)]) image0 []
     = Some (Inr (response 1 [] 42), replicate 3 ?q)"
    using join_poll_sequences [OF q c, of "join_stub [response 0 [] 0, response 0 [] 0, response 1 [] 42]" "[]"
        "response 0 [] 0" "response 0 [] 0" "response 1 [] 42" 0 "response 1 [] 42"]
    by (simp add: join_stub_def scripted_join_def is_join_def join_request_def response_def imported0_def
        numeral_3_eq_3)
  have B: "join imported0 (join_stub [response 0 [] 0, response 2 ''boom'' (0::int)]) image0 []
     = Some (Inl (Exception ''boom''), replicate 2 ?q)"
    using join_poll_sequences [OF q c, of "join_stub [response 0 [] 0, response 2 ''boom'' 0]" "[]"
        "response 0 [] 0" "response 2 ''boom'' 0" "response 1 [] 42" 0 "response 1 [] 42"]
    by (simp add: join_stub_def scripted_join_def is_join_def join_request_def response_def imported0_def
        numeral_2_eq_2)
  have C: "join imported0 (join_stub [response 0 [] 0, response 7 [] (0::int)]) image0 []
     = Some (Inl (Exception ''Unknown status 7!''), replicate 2 ?q)"
    using join_poll_sequences [OF q c, of "join_stub [response 0 [] 0, response 7 [] 0]" "[]"
        "response 0 [] 0" "response 0 [] 0" "response 1 [] 42" 1 "response 7 [] 0"]
    by (simp add: join_stub_def scripted_join_def is_join_def join_request_def response_def imported0_def
        numeral_2_eq_2 str_int_def str_nat_digit digit_char_def)
  show ?thesis using A B C by simp
qed

text \<open>
  Claim C7, as the code has it. A response whose status is none of pending, \<open>FAILURE\<close>,
  \<open>SUCCESS\<close> makes join raise at once, with no further poll, a plain \<open>Exception\<close> whose
  message is \<open>Unknown status <value>!\<close>; a \<open>FAILURE\<close> status makes it raise a plain
  \<open>Exception\<close> whose message is the remote diagnostic. The two errors are of the same
  class and differ by their message only.
\<close>

theorem join_unknown_status_exception:
  assumes q: "q = join_request imp (image_id self)"
  shows "(ImageJoin client (tr @ [q]) = Inr r \<and>
          status (result r) \<notin> {0, Status_FAILURE imp, Status_SUCCESS imp}
          \<longrightarrow> join imp client self tr =
                Some (Inl (Exception (''Unknown status '' @ str_int (status (result r)) @ ''!'')), tr @ [q]))
       \<and> (ImageJoin client (tr @ [q]) = Inr r \<and>
          status (result r) = Status_FAILURE imp \<and> Status_FAILURE imp \<noteq> 0
          \<longrightarrow> join imp client self tr = Some (Inl (Exception (exception (result r))), tr @ [q]))"
proof -
  have p1: "ImageJoin client (tr @ [q]) = Inr r \<and>
          status (result r) \<notin> {0, Status_FAILURE imp, Status_SUCCESS imp}
          \<longrightarrow> join imp client self tr =
                Some (Inl (Exception (''Unknown status '' @ str_int (status (result r)) @ ''!'')), tr @ [q])"
    using join_loop_unknown [of client tr imp "image_id self" r] by (simp add: q join_def)
  have p2: "ImageJoin client (tr @ [q]) = Inr r \<and>
          status (result r) = Status_FAILURE imp \<and> Status_FAILURE imp \<noteq> 0
          \<longrightarrow> join imp client self tr = Some (Inl (Exception (exception (result r))), tr @ [q])"
    using join_loop_failure [of client tr imp "image_id self" r] by (simp add: q join_def)
  show ?thesis
    by (rule conjI [OF p1 p2])
qed

text \<open>Claim C7 at two scripted stubs: an unknown status 7, and a failure.\<close>

theorem join_unknown_status_exception_witness:
  "join imported0 (join_stub [response 7 [] (0::int)]) image0 []
     = Some (Inl (Exception ''Unknown status 7!''), [join_request imported0 (Some ''im-1'')])
   \<and> join imported0 (join_stub [response 2 ''out of memory'' (0::int)]) image0 []
     = Some (Inl (Exception ''out of memory''), [join_request imported0 (Some ''im-1'')])"
proof -
  let ?q = "join_request imported0 (Some ''im-1'')"
  have q: "?q = join_request imported0 (image_id image0)" by (simp add: image0_def)
  have A: "join imported0 (join_stub [response 7 [] (0::int)]) image0 []
     = Some (Inl (Exception ''Unknown status 7!''), [?q])"
    using join_unknown_status_exception [OF q, of "join_stub [response 7 [] 0]" "[]" "response 7 [] 0"]
    by (simp add: join_stub_def scripted_join_def is_join_def join_request_def response_def imported0_def
        str_int_def str_nat_digit digit_char_def)
  have B: "join imported0 (join_stub [response 2 ''out of memory'' (0::int)]) image0 []
     = Some (Inl (Exception ''out of memory''), [?q])"
    using join_unknown_status_exception [OF q, of "join_stub [response 2 ''out of memory'' 0]" "[]"
        "response 2 ''out of memory'' 0"]
    by (simp add: join_stub_def scripted_join_def is_join_def join_request_def response_def imported0_def)
  show ?thesis using A B by simp
qed

text \<open>
  Claim C7 as stated fails: the error raised for the unknown status 7 and the error
  raised for a remote failure whose diagnostic reads \<open>Unknown status 7!\<close> are the same
  value, so a caller cannot tell the two apart.
\<close>

theorem join_unknown_status_counterexample:
  "status (result (response 7 [] (0::int))) \<notin> {0, Status_FAILURE imported0, Status_SUCCESS imported0}
   \<and> status (result (response 2 ''Unknown status 7!'' (0::int))) = Status_FAILURE imported0
   \<and> join imported0 (join_stub [response 7 [] (0::int)]) image0 []
     = Some (Inl (Exception ''Unknown status 7!''), [join_request imported0 (Some ''im-1'')])
   \<and> join imported0 (join_stub [response 2 ''Unknown status 7!'' (0::int)]) image0 []
     = Some (Inl (Exception ''Unknown status 7!''), [join_request imported0 (Some ''im-1'')])"
proof -
  let ?q = "join_request imported0 (Some ''im-1'')"
  have A: "join imported0 (join_stub [response 7 [] (0::int)]) image0 []
     = Some (Inl (Exception ''Unknown status 7!''), [?q])"
    using join_loop_unknown [of "join_stub [response 7 [] (0::int)]" "[]" imported0 "Some ''im-1''" "response 7 [] 0"]
    by (simp add: join_stub_def scripted_join_def is_join_def join_request_def join_def image0_def
        response_def imported0_def str_int_def str_nat_digit digit_char_def)
  have B: "join imported0 (join_stub [response 2 ''Unknown status 7!'' (0::int)]) image0 []
     = Some (Inl (Exception ''Unknown status 7!''), [?q])"
    using join_loop_failure [of "join_stub [response 2 ''Unknown status 7!'' (0::int)]" "[]" imported0 "Some ''im-1''"
        "response 2 ''Unknown status 7!'' 0"]
    by (simp add: join_stub_def scripted_join_def is_join_def join_request_def join_def image0_def
        response_def imported0_def)
  show ?thesis using A B by (simp add: response_def imported0_def)
qed

subsection \<open>Mount synchronization\<close>

lemma register_requests_append [simp]:
  "register_requests (xs @ ys) = register_requests xs @ register_requests ys"
  by (simp add: register_requests_def map_filter_def)

lemma register_responses_append [simp]:
  "register_responses (xs @ ys) = register_responses xs @ register_responses ys"
  by (simp add: register_responses_def map_filter_def)

lemma upload_requests_append [simp]:
  "upload_requests (xs @ ys) = upload_requests xs @ upload_requests ys"
  by (simp add: upload_requests_def map_filter_def)

lemma trace_readers_Nil [simp]:
  "register_requests [] = []" "register_responses [] = []" "upload_requests [] = []"
  by (simp_all add: register_requests_def register_responses_def upload_requests_def map_filter_def)

lemma trace_readers_Cons [simp]:
  "register_requests (e # tr) =
     (case register_request_of e of None \<Rightarrow> register_requests tr | Some x \<Rightarrow> x # register_requests tr)"
  "register_responses (e # tr) =
     (case register_response_of e of None \<Rightarrow> register_responses tr | Some x \<Rightarrow> x # register_responses tr)"
  "upload_requests (e # tr) =
     (case upload_request_of e of None \<Rightarrow> upload_requests tr | Some x \<Rightarrow> x # upload_requests tr)"
  by (simp_all add: register_requests_def register_responses_def upload_requests_def map_filter_def
      split: option.splits)

lemma echoesD:
  "echoes client \<Longrightarrow> MountRegisterFile client (h @ [MountRegisterFileRequest f s m]) = Inr (r, ex) \<Longrightarrow> r = f"
  unfolding echoes_def by (metis fst_conv)

lemma upload_file_requests_loop_shape:
  "echoes client \<Longrightarrow> upload_file_requests_loop host client mid entries self tr = (Inr (), self', tr') \<Longrightarrow>
    \<exists>es flags new. entries = map Inr es \<and> tr' = tr @ new \<and> remote_dir self' = remote_dir self \<and>
      synchronized host mid (remote_dir self) es flags new"
proof (induction entries arbitrary: self tr)
  case Nil
  then show ?case by (simp add: synchronized_def)
next
  case (Cons a rest)
  note echo = Cons.prems(1)
  note prem = Cons.prems(2)
  from prem obtain filename rel_filename sha256_hex where a: "a = Inr (filename, rel_filename, sha256_hex)"
    by (cases a) auto
  let ?rf = "os_path_join (remote_dir self) rel_filename"
  let ?self2 = "self\<lparr>remote_to_local_filename := (remote_to_local_filename self)(?rf \<mapsto> filename),
                     hashes := (hashes self)(filename \<mapsto> sha256_hex)\<rparr>"
  let ?tr1 = "tr @ [MountRegisterFileRequest ?rf sha256_hex mid]"
  from prem a obtain rfn ex where resp: "MountRegisterFile client ?tr1 = Inr (rfn, ex)"
    by (auto simp: Let_def split: sum.splits prod.splits)
  from echo resp have rfn: "rfn = ?rf"
    by (rule echoesD)
  let ?tr2 = "?tr1 @ [MountRegisterFileResponse ?rf ex]"
  show ?case
  proof (cases ex)
    case True
    with prem a resp rfn have run: "upload_file_requests_loop host client mid rest ?self2 ?tr2 = (Inr (), self', tr')"
      by (simp add: Let_def)
    from Cons.IH [OF echo run]
    obtain es flags new where ih: "rest = map Inr es" "tr' = ?tr2 @ new"
      "remote_dir self' = remote_dir self" "synchronized host mid (remote_dir self) es flags new"
      by auto
    have "synchronized host mid (remote_dir self) ((filename, rel_filename, sha256_hex) # es) (True # flags)
       ([MountRegisterFileRequest ?rf sha256_hex mid, MountRegisterFileResponse ?rf True] @ new)"
      using ih(4) by (simp add: synchronized_def)
    with ih a True show ?thesis
      by (intro exI [of _ "(filename, rel_filename, sha256_hex) # es"] exI [of _ "True # flags"]
          exI [of _ "[MountRegisterFileRequest ?rf sha256_hex mid, MountRegisterFileResponse ?rf True] @ new"])
        simp
  next
    case False
    with prem a resp rfn obtain d where d: "contents host filename = Inr d"
      by (auto simp: Let_def split: sum.splits)
    let ?tr4 = "?tr2 @ [Open filename, MountUploadFileRequest d sha256_hex (length d) mid]"
    from prem a resp rfn False d obtain u where w: "MountUploadFile_write client ?tr4 = Inr u"
      by (auto simp: Let_def split: sum.splits)
    with prem a resp rfn False d have run: "upload_file_requests_loop host client mid rest ?self2 ?tr4 = (Inr (), self', tr')"
      by (simp add: Let_def)
    from Cons.IH [OF echo run]
    obtain es flags new where ih: "rest = map Inr es" "tr' = ?tr4 @ new"
      "remote_dir self' = remote_dir self" "synchronized host mid (remote_dir self) es flags new"
      by auto
    have "synchronized host mid (remote_dir self) ((filename, rel_filename, sha256_hex) # es) (False # flags)
       ([MountRegisterFileRequest ?rf sha256_hex mid, MountRegisterFileResponse ?rf False,
         Open filename, MountUploadFileRequest d sha256_hex (length d) mid] @ new)"
      using ih(4) d by (simp add: synchronized_def upload_matches_def)
    with ih a False show ?thesis
      by (intro exI [of _ "(filename, rel_filename, sha256_hex) # es"] exI [of _ "False # flags"]
          exI [of _ "[MountRegisterFileRequest ?rf sha256_hex mid, MountRegisterFileResponse ?rf False,
         Open filename, MountUploadFileRequest d sha256_hex (length d) mid] @ new"])
        simp
  qed
qed

lemma echoes_mount_stub: "echoes (mount_stub mid present)"
  by (simp add: echoes_def mount_stub_def echo_register_def)

lemma get_files_host0:
  "get_files host0 ''.'' (condition mount0) =
     ([Walk ''.'', Open ''./b.py'', Open ''./a.py''],
      [Inr (''./b.py'', ''b.py'', ''#b''), Inr (''./a.py'', ''a.py'', ''#aa'')])"
  by (simp add: get_files_def host0_def mount0_def splitext_ext_def get_sha256_hex_def)

lemma loop_host0_b_present:
  "upload_file_requests_loop host0 (mount_stub ''mo-1'' (\<lambda>f. f = ''/root/b.py'')) ''mo-1''
      [Inr (''./b.py'', ''b.py'', ''#b''), Inr (''./a.py'', ''a.py'', ''#aa'')] mount0 tr
   = (Inr (), mount1,
      tr @ [MountRegisterFileRequest ''/root/b.py'' ''#b'' ''mo-1'',
       MountRegisterFileResponse ''/root/b.py'' True,
       MountRegisterFileRequest ''/root/a.py'' ''#aa'' ''mo-1'',
       MountRegisterFileResponse ''/root/a.py'' False,
       Open ''./a.py'',
       MountUploadFileRequest ''aa'' ''#aa'' 2 ''mo-1''])"
  by (simp add: mount1_def mount0_def host0_def mount_stub_def echo_register_def accepted_def
      os_path_join_def Let_def)



lemma Mount_start_cached:
  "truthy (mount_id self) \<Longrightarrow> Mount_start host client self tr = (Inr (the (mount_id self)), self, tr)"
  by (simp add: Mount_start_def)

lemma loop_host0_all_present:
  "upload_file_requests_loop host0 (mount_stub mid (\<lambda>f. True)) mid
      [Inr (''./b.py'', ''b.py'', ''#b''), Inr (''./a.py'', ''a.py'', ''#aa'')] (mount0\<lparr>mount_id := v\<rparr>) tr
   = (Inr (), mount1\<lparr>mount_id := v\<rparr>,
      tr @ [MountRegisterFileRequest ''/root/b.py'' ''#b'' mid,
       MountRegisterFileResponse ''/root/b.py'' True,
       MountRegisterFileRequest ''/root/a.py'' ''#aa'' mid,
       MountRegisterFileResponse ''/root/a.py'' True])"
  by (simp add: mount1_def mount0_def host0_def mount_stub_def echo_register_def accepted_def
      os_path_join_def Let_def)

lemma loop_host0_all_present':
  "upload_file_requests_loop host0 (mount_stub mid (\<lambda>f. True)) mid
      [Inr (''./b.py'', ''b.py'', ''#b''), Inr (''./a.py'', ''a.py'', ''#aa'')] (mount1\<lparr>mount_id := v\<rparr>) tr
   = (Inr (), mount1\<lparr>mount_id := v\<rparr>,
      tr @ [MountRegisterFileRequest ''/root/b.py'' ''#b'' mid,
       MountRegisterFileResponse ''/root/b.py'' True,
       MountRegisterFileRequest ''/root/a.py'' ''#aa'' mid,
       MountRegisterFileResponse ''/root/a.py'' True])"
  by (simp add: mount1_def mount0_def host0_def mount_stub_def echo_register_def accepted_def
      os_path_join_def Let_def fun_upd_twist)

lemma mount01 [simp]:
  "local_dir mount1 = ''.''" "condition mount1 = condition mount0" "local_dir mount0 = ''.''"
  "mount_id mount0 = None" "mount_id mount1 = None"
  by (simp_all add: mount1_def mount0_def)

lemma stub_simps [simp]:
  "client_id (mount_stub mid present) = ''cl-1''"
  "MountCreate (mount_stub mid present) tr = Inr mid"
  "MountUploadFile (mount_stub mid present) tr = Inr ()"
  "MountDone (mount_stub mid present) tr = Inr ()"
  by (simp_all add: mount_stub_def accepted_def)

text \<open>
  Claim C3 at a remote side that answers \<open>MountCreate\<close> with the empty mount id. The first
  start succeeds and stores the id; the guard \<open>if self.mount_id:\<close> is false for it, so the
  second start on the resulting mount does not return at once: it sends \<open>MountCreate\<close>
  again, walks and hashes the files again, registers them again and sends \<open>MountDone\<close>
  again. (For a non-empty id the second start changes nothing: \<open>Mount_start_cached\<close>.)
\<close>

theorem Mount_start_empty_id_synchronizes_again:
  "Mount_start host0 (mount_stub '''' (\<lambda>f. True)) mount0 [] =
     (Inr '''', mount1\<lparr>mount_id := Some ''''\<rparr>,
      [MountCreateRequest ''cl-1'', Walk ''.'', Open ''./b.py'', Open ''./a.py'',
       MountRegisterFileRequest ''/root/b.py'' ''#b'' '''',
       MountRegisterFileResponse ''/root/b.py'' True,
       MountRegisterFileRequest ''/root/a.py'' ''#aa'' '''',
       MountRegisterFileResponse ''/root/a.py'' True,
       MountDoneRequest ''''])
   \<and> Mount_start host0 (mount_stub '''' (\<lambda>f. True)) (mount1\<lparr>mount_id := Some ''''\<rparr>)
       [MountCreateRequest ''cl-1'', Walk ''.'', Open ''./b.py'', Open ''./a.py'',
        MountRegisterFileRequest ''/root/b.py'' ''#b'' '''',
        MountRegisterFileResponse ''/root/b.py'' True,
        MountRegisterFileRequest ''/root/a.py'' ''#aa'' '''',
        MountRegisterFileResponse ''/root/a.py'' True,
        MountDoneRequest ''''] =
     (Inr '''', mount1\<lparr>mount_id := Some ''''\<rparr>,
      [MountCreateRequest ''cl-1'', Walk ''.'', Open ''./b.py'', Open ''./a.py'',
       MountRegisterFileRequest ''/root/b.py'' ''#b'' '''',
       MountRegisterFileResponse ''/root/b.py'' True,
       MountRegisterFileRequest ''/root/a.py'' ''#aa'' '''',
       MountRegisterFileResponse ''/root/a.py'' True,
       MountDoneRequest '''',
       MountCreateRequest ''cl-1'', Walk ''.'', Open ''./b.py'', Open ''./a.py'',
       MountRegisterFileRequest ''/root/b.py'' ''#b'' '''',
       MountRegisterFileResponse ''/root/b.py'' True,
       MountRegisterFileRequest ''/root/a.py'' ''#aa'' '''',
       MountRegisterFileResponse ''/root/a.py'' True,
       MountDoneRequest ''''])"
proof -
  have 0: "mount0 = mount0\<lparr>mount_id := None\<rparr>" "mount1 = mount1\<lparr>mount_id := None\<rparr>"
    by (simp_all add: mount0_def mount1_def)
  have a: "Mount_start host0 (mount_stub '''' (\<lambda>f. True)) mount0 tr =
     (Inr '''', mount1\<lparr>mount_id := Some ''''\<rparr>,
      tr @ [MountCreateRequest ''cl-1'', Walk ''.'', Open ''./b.py'', Open ''./a.py'',
       MountRegisterFileRequest ''/root/b.py'' ''#b'' '''',
       MountRegisterFileResponse ''/root/b.py'' True,
       MountRegisterFileRequest ''/root/a.py'' ''#aa'' '''',
       MountRegisterFileResponse ''/root/a.py'' True,
       MountDoneRequest ''''])" for tr
    using loop_host0_all_present [of "''''" None "tr @ [MountCreateRequest ''cl-1'', Walk ''.'', Open ''./b.py'', Open ''./a.py'']"]
    by (simp add: Mount_start_def upload_file_requests_def get_files_host0 truthy_def 0 [symmetric])
  have b: "Mount_start host0 (mount_stub '''' (\<lambda>f. True)) (mount1\<lparr>mount_id := Some ''''\<rparr>) tr =
     (Inr '''', mount1\<lparr>mount_id := Some ''''\<rparr>,
      tr @ [MountCreateRequest ''cl-1'', Walk ''.'', Open ''./b.py'', Open ''./a.py'',
       MountRegisterFileRequest ''/root/b.py'' ''#b'' '''',
       MountRegisterFileResponse ''/root/b.py'' True,
       MountRegisterFileRequest ''/root/a.py'' ''#aa'' '''',
       MountRegisterFileResponse ''/root/a.py'' True,
       MountDoneRequest ''''])" for tr
    using loop_host0_all_present' [of "''''" "Some ''''" "tr @ [MountCreateRequest ''cl-1'', Walk ''.'', Open ''./b.py'', Open ''./a.py'']"]
    by (simp add: Mount_start_def upload_file_requests_def get_files_host0 truthy_def)
  show ?thesis
    using a [of "[]"] b [of "[MountCreateRequest ''cl-1'', Walk ''.'', Open ''./b.py'', Open ''./a.py'',
        MountRegisterFileRequest ''/root/b.py'' ''#b'' '''',
        MountRegisterFileResponse ''/root/b.py'' True,
        MountRegisterFileRequest ''/root/a.py'' ''#aa'' '''',
        MountRegisterFileResponse ''/root/a.py'' True,
        MountDoneRequest '''']"]
    by simp
qed

lemma uploads_follow_Nil: "uploads_follow_own_registration []"
  by (simp add: uploads_follow_own_registration_def)

lemma uploads_follow_snoc:
  assumes "uploads_follow_own_registration xs" and "\<not> is_upload e"
  shows "uploads_follow_own_registration (xs @ [e])"
  unfolding uploads_follow_own_registration_def
proof (intro allI impI)
  fix pre d s n m post
  assume eq: "xs @ [e] = pre @ MountUploadFileRequest d s n m # post"
  show "\<exists>pre' rf f. pre = pre' @ [MountRegisterFileRequest rf s m, MountRegisterFileResponse rf False, Open f]"
  proof (cases post rule: rev_cases)
    case Nil
    with eq have "e = MountUploadFileRequest d s n m" by simp
    with assms(2) show ?thesis by (simp add: is_upload_def)
  next
    case (snoc post' e')
    with eq have "xs = pre @ MountUploadFileRequest d s n m # post'"
      by (metis append.assoc append_Cons butlast_snoc)
    with assms(1) show ?thesis
      unfolding uploads_follow_own_registration_def by blast
  qed
qed

lemma uploads_follow_upload:
  assumes "uploads_follow_own_registration xs"
  shows "uploads_follow_own_registration
     (xs @ [MountRegisterFileRequest rf s m, MountRegisterFileResponse rf False, Open f,
            MountUploadFileRequest d s n m])"
proof -
  let ?ys = "xs @ [MountRegisterFileRequest rf s m, MountRegisterFileResponse rf False, Open f]"
  have ys: "uploads_follow_own_registration ?ys"
    using uploads_follow_snoc [OF uploads_follow_snoc [OF uploads_follow_snoc [OF assms, of "MountRegisterFileRequest rf s m"],
        of "MountRegisterFileResponse rf False"], of "Open f"]
    by (simp add: is_upload_def)
  have "uploads_follow_own_registration (?ys @ [MountUploadFileRequest d s n m])"
    unfolding uploads_follow_own_registration_def
  proof (intro allI impI)
    fix pre d' s' n' m' post
    assume eq: "?ys @ [MountUploadFileRequest d s n m] = pre @ MountUploadFileRequest d' s' n' m' # post"
    show "\<exists>pre' rf f. pre = pre' @ [MountRegisterFileRequest rf s' m', MountRegisterFileResponse rf False, Open f]"
    proof (cases post rule: rev_cases)
      case Nil
      with eq have "pre = ?ys" "s' = s" "m' = m" by auto
      then show ?thesis by blast
    next
      case (snoc post' e')
      with eq have "?ys = pre @ MountUploadFileRequest d' s' n' m' # post'"
        by (metis append.assoc append_Cons butlast_snoc)
      with ys show ?thesis
        unfolding uploads_follow_own_registration_def by blast
    qed
  qed
  then show ?thesis by simp
qed

lemma uploads_follow_append_others:
  "uploads_follow_own_registration xs \<Longrightarrow> \<forall>e \<in> set ys. \<not> is_upload e \<Longrightarrow>
   uploads_follow_own_registration (xs @ ys)"
proof (induction ys rule: rev_induct)
  case Nil
  then show ?case by simp
next
  case (snoc y ys)
  then have "uploads_follow_own_registration ((xs @ ys) @ [y])"
    by (intro uploads_follow_snoc) auto
  then show ?case by simp
qed

lemma loop_uploads_follow:
  "echoes client \<Longrightarrow>
   upload_file_requests_loop host client mid entries self (tr @ acc) = (res, self', tr') \<Longrightarrow>
   uploads_follow_own_registration acc \<Longrightarrow>
   \<exists>new. tr' = tr @ new \<and> uploads_follow_own_registration new"
proof (induction entries arbitrary: self acc)
  case Nil
  then show ?case by auto
next
  case (Cons a rest)
  note echo = Cons.prems(1) and prem = Cons.prems(2) and acc = Cons.prems(3)
  show ?case
  proof (cases a)
    case (Inl e)
    with prem acc show ?thesis by auto
  next
    case (Inr entry)
    obtain filename rel_filename sha256_hex where entry: "entry = (filename, rel_filename, sha256_hex)"
      by (cases entry) auto
    let ?rf = "os_path_join (remote_dir self) rel_filename"
    let ?self2 = "self\<lparr>remote_to_local_filename := (remote_to_local_filename self)(?rf \<mapsto> filename),
                     hashes := (hashes self)(filename \<mapsto> sha256_hex)\<rparr>"
    let ?q = "MountRegisterFileRequest ?rf sha256_hex mid"
    have acc1: "uploads_follow_own_registration (acc @ [?q])"
      using acc by (intro uploads_follow_snoc) (simp_all add: is_upload_def)
    show ?thesis
    proof (cases "MountRegisterFile client (tr @ acc @ [?q])")
      case (Inl e)
      with prem Inr entry have "tr' = tr @ (acc @ [?q])"
        by (simp add: Let_def)
      with acc1 show ?thesis by blast
    next
      case r: (Inr r)
      obtain rfn ex where rr: "r = (rfn, ex)" by (cases r) auto
      from echo r rr have rfn: "rfn = ?rf"
        using echoesD [of client "tr @ acc" ?rf sha256_hex mid rfn ex] by simp
      let ?p = "MountRegisterFileResponse ?rf ex"
      have acc2: "uploads_follow_own_registration (acc @ [?q, ?p])"
        using uploads_follow_snoc [OF acc1, of ?p] by (simp add: is_upload_def)
      show ?thesis
      proof (cases ex)
        case True
        with prem Inr entry r rr rfn
        have "upload_file_requests_loop host client mid rest ?self2 (tr @ (acc @ [?q, ?p])) = (res, self', tr')"
          by (simp add: Let_def)
        from Cons.IH [OF echo this acc2] show ?thesis .
      next
        case False
        have acc3: "uploads_follow_own_registration (acc @ [?q, ?p, Open filename])"
          using uploads_follow_snoc [OF acc2, of "Open filename"] by (simp add: is_upload_def)
        show ?thesis
        proof (cases "contents host filename")
          case (Inl e)
          with prem Inr entry r rr rfn False have "tr' = tr @ (acc @ [?q, ?p, Open filename])"
            by (simp add: Let_def)
          with acc3 show ?thesis by blast
        next
          case d: (Inr d)
          let ?u = "MountUploadFileRequest d sha256_hex (length d) mid"
          have acc4: "uploads_follow_own_registration (acc @ [?q, ?p, Open filename, ?u])"
            using uploads_follow_upload [OF acc] False by simp
          show ?thesis
          proof (cases "MountUploadFile_write client (tr @ acc @ [?q, ?p, Open filename, ?u])")
            case (Inl e)
            with prem Inr entry r rr rfn False d have "tr' = tr @ (acc @ [?q, ?p, Open filename, ?u])"
              by (simp add: Let_def)
            with acc4 show ?thesis by blast
          next
            case w: (Inr w)
            with prem Inr entry r rr rfn False d
            have "upload_file_requests_loop host client mid rest ?self2
                (tr @ (acc @ [?q, ?p, Open filename, ?u])) = (res, self', tr')"
              by (simp add: Let_def)
            from Cons.IH [OF echo this acc4] show ?thesis .
          qed
        qed
      qed
    qed
  qed
qed


lemma get_files_events: "get_files host dir cond = (evs, entries) \<Longrightarrow> \<forall>e \<in> set evs. \<not> is_upload e"
  by (auto simp: get_files_def Let_def is_upload_def)


lemma Mount_start_host0_b_present:
  "Mount_start host0 (mount_stub ''mo-1'' (\<lambda>f. f = ''/root/b.py'')) mount0 [] =
     (Inr ''mo-1'', mount1\<lparr>mount_id := Some ''mo-1''\<rparr>,
      [MountCreateRequest ''cl-1'', Walk ''.'', Open ''./b.py'', Open ''./a.py'',
       MountRegisterFileRequest ''/root/b.py'' ''#b'' ''mo-1'',
       MountRegisterFileResponse ''/root/b.py'' True,
       MountRegisterFileRequest ''/root/a.py'' ''#aa'' ''mo-1'',
       MountRegisterFileResponse ''/root/a.py'' False,
       Open ''./a.py'',
       MountUploadFileRequest ''aa'' ''#aa'' 2 ''mo-1'',
       MountDoneRequest ''mo-1''])"
  using loop_host0_b_present [of "[MountCreateRequest ''cl-1'', Walk ''.'', Open ''./b.py'', Open ''./a.py'']"]
  by (simp add: Mount_start_def upload_file_requests_def get_files_host0 truthy_def)


lemma loop_host0_none_present:
  "upload_file_requests_loop host0 (mount_stub ''mo-1'' (\<lambda>f. False)) ''mo-1''
      [Inr (''./b.py'', ''b.py'', ''#b''), Inr (''./a.py'', ''a.py'', ''#aa'')] mount0 tr
   = (Inr (), mount1,
      tr @ [MountRegisterFileRequest ''/root/b.py'' ''#b'' ''mo-1'',
       MountRegisterFileResponse ''/root/b.py'' False,
       Open ''./b.py'',
       MountUploadFileRequest ''b'' ''#b'' 1 ''mo-1'',
       MountRegisterFileRequest ''/root/a.py'' ''#aa'' ''mo-1'',
       MountRegisterFileResponse ''/root/a.py'' False,
       Open ''./a.py'',
       MountUploadFileRequest ''aa'' ''#aa'' 2 ''mo-1''])"
  by (simp add: mount1_def mount0_def host0_def mount_stub_def echo_register_def accepted_def
      os_path_join_def Let_def)


lemma aborts_Nil: "aborts_at_failure client tr res []"
  by (simp add: aborts_at_failure_def)

lemma aborts_Cons:
  assumes "aborts_at_failure client (tr @ [x]) res new"
    and "\<And>e. request_fails client (tr @ [x]) e \<Longrightarrow> new = [] \<and> res = Inl e"
  shows "aborts_at_failure client tr res (x # new)"
  unfolding aborts_at_failure_def
proof (intro allI impI)
  fix p s e
  assume a: "x # new = p @ s \<and> p \<noteq> [] \<and> request_fails client (tr @ p) e"
  then obtain p' where p: "p = x # p'" "new = p' @ s"
    by (cases p) auto
  show "s = [] \<and> res = Inl e"
  proof (cases "p' = []")
    case True
    with a p assms(2) [of e] show ?thesis by simp
  next
    case False
    with a p assms(1) [unfolded aborts_at_failure_def, rule_format, of p' s e] show ?thesis
      by simp
  qed
qed

lemma aborts_other:
  assumes "aborts_at_failure client (tr @ [x]) res new"
    and "\<And>e. \<not> request_fails client (tr @ [x]) e"
  shows "aborts_at_failure client tr res (x # new)"
  using assms by (intro aborts_Cons) auto

lemma aborts_result:
  "aborts_at_failure client tr r new \<Longrightarrow> (\<And>e. r = Inl e \<Longrightarrow> res = Inl e) \<Longrightarrow>
   aborts_at_failure client tr res new"
  unfolding aborts_at_failure_def by blast

lemma aborts_append:
  assumes "aborts_at_failure client tr (Inr u) new" and "aborts_at_failure client (tr @ new) res rest"
  shows "aborts_at_failure client tr res (new @ rest)"
  unfolding aborts_at_failure_def
proof (intro allI impI)
  fix p s e
  assume a: "new @ rest = p @ s \<and> p \<noteq> [] \<and> request_fails client (tr @ p) e"
  then obtain us where us: "(new = p @ us \<and> us @ rest = s) \<or> (new @ us = p \<and> rest = us @ s)"
    by (auto simp: append_eq_append_conv2)
  show "s = [] \<and> res = Inl e"
  proof (cases "new = p @ us \<and> us @ rest = s \<or> us = []")
    case True
    with us have "\<exists>vs. new = p @ vs" by auto
    then obtain vs where "new = p @ vs" ..
    with a assms(1) [unfolded aborts_at_failure_def, rule_format, of p vs e]
    have "(Inr u :: error + 'b) = Inl e" by simp
    then show ?thesis by simp
  next
    case False
    with us have 2: "p = new @ us" "us \<noteq> []" "rest = us @ s" by auto
    with a assms(2) [unfolded aborts_at_failure_def, rule_format, of us s e] show ?thesis
      by simp
  qed
qed

lemma loop_aborts:
  "upload_file_requests_loop host client mid entries self tr = (res, self', tr') \<Longrightarrow>
   \<exists>new. tr' = tr @ new \<and> aborts_at_failure client tr res new \<and> mount_id self' = mount_id self"
proof (induction entries arbitrary: self tr)
  case Nil
  then show ?case by (auto simp: aborts_Nil)
next
  case (Cons a rest)
  note prem = Cons.prems
  show ?case
  proof (cases a)
    case (Inl e)
    with prem show ?thesis by (auto simp: aborts_Nil)
  next
    case (Inr entry)
    obtain filename rel_filename sha256_hex where entry: "entry = (filename, rel_filename, sha256_hex)"
      by (cases entry) auto
    let ?rf = "os_path_join (remote_dir self) rel_filename"
    let ?self2 = "self\<lparr>remote_to_local_filename := (remote_to_local_filename self)(?rf \<mapsto> filename),
                     hashes := (hashes self)(filename \<mapsto> sha256_hex)\<rparr>"
    let ?q = "MountRegisterFileRequest ?rf sha256_hex mid"
    show ?thesis
    proof (cases "MountRegisterFile client (tr @ [?q])")
      case (Inl e)
      with prem Inr entry have "tr' = tr @ [?q]" "res = Inl e" "mount_id self' = mount_id self"
        by (auto simp: Let_def)
      moreover have "aborts_at_failure client tr (Inl e :: error + unit) [?q]"
        using Inl by (intro aborts_Cons aborts_Nil) (simp add: request_fails_def)
      ultimately show ?thesis by blast
    next
      case r: (Inr r)
      obtain rfn ex where rr: "r = (rfn, ex)" by (cases r) auto
      let ?p = "MountRegisterFileResponse rfn ex"
      show ?thesis
      proof (cases ex)
        case True
        with prem Inr entry r rr
        have "upload_file_requests_loop host client mid rest ?self2 ((tr @ [?q]) @ [?p]) = (res, self', tr')"
          by (simp add: Let_def)
        from Cons.IH [OF this]
        obtain new where new: "tr' = ((tr @ [?q]) @ [?p]) @ new"
          "aborts_at_failure client ((tr @ [?q]) @ [?p]) res new" "mount_id self' = mount_id self"
          by auto
        have "aborts_at_failure client tr res (?q # ?p # new)"
          using new(2) r by (intro aborts_other) (simp_all add: request_fails_def)
        with new show ?thesis by auto
      next
        case False
        show ?thesis
        proof (cases "remote_to_local_filename ?self2 rfn")
          case None
          with prem Inr entry r rr False
          have "tr' = tr @ [?q, ?p]" "mount_id self' = mount_id self"
            by (auto simp: Let_def)
          moreover have "aborts_at_failure client tr res [?q, ?p]"
            using r by (intro aborts_other aborts_Nil) (simp_all add: request_fails_def)
          ultimately show ?thesis by blast
        next
          case (Some fname)
          let ?o = "Open fname"
          show ?thesis
          proof (cases "contents host fname")
            case (Inl e)
            with prem Inr entry r rr False Some
            have "tr' = tr @ [?q, ?p, ?o]" "mount_id self' = mount_id self"
              by (auto simp: Let_def)
            moreover have "aborts_at_failure client tr res [?q, ?p, ?o]"
              using r by (intro aborts_other aborts_Nil) (simp_all add: request_fails_def)
            ultimately show ?thesis by blast
          next
            case d: (Inr d)
            show ?thesis
            proof (cases "hashes ?self2 fname")
              case None
              with prem Inr entry r rr False Some d
              have "tr' = tr @ [?q, ?p, ?o]" "mount_id self' = mount_id self"
                by (auto simp: Let_def)
              moreover have "aborts_at_failure client tr res [?q, ?p, ?o]"
                using r by (intro aborts_other aborts_Nil) (simp_all add: request_fails_def)
              ultimately show ?thesis by blast
            next
              case h: (Some h)
              let ?u = "MountUploadFileRequest d h (length d) mid"
              show ?thesis
              proof (cases "MountUploadFile_write client (tr @ [?q, ?p, ?o, ?u])")
                case (Inl e)
                with prem Inr entry r rr False Some d h
                have "tr' = tr @ [?q, ?p, ?o, ?u]" "res = Inl e" "mount_id self' = mount_id self"
                  by (auto simp: Let_def)
                moreover have "aborts_at_failure client tr (Inl e :: error + unit) [?q, ?p, ?o, ?u]"
                  using r Inl by (intro aborts_Cons aborts_Nil) (simp_all add: request_fails_def)
                ultimately show ?thesis by blast
              next
                case w: (Inr w)
                with prem Inr entry r rr False Some d h
                have "upload_file_requests_loop host client mid rest ?self2
                    ((((tr @ [?q]) @ [?p]) @ [?o]) @ [?u]) = (res, self', tr')"
                  by (simp add: Let_def)
                from Cons.IH [OF this]
                obtain new where new: "tr' = ((((tr @ [?q]) @ [?p]) @ [?o]) @ [?u]) @ new"
                  "aborts_at_failure client ((((tr @ [?q]) @ [?p]) @ [?o]) @ [?u]) res new"
                  "mount_id self' = mount_id self"
                  by auto
                have "aborts_at_failure client tr res (?q # ?p # ?o # ?u # new)"
                  using new(2) r w by (intro aborts_other) (simp_all add: request_fails_def)
                with new show ?thesis by auto
              qed
            qed
          qed
        qed
      qed
    qed
  qed
qed


lemma get_files_aborts:
  "get_files host dir cond = (evs, entries) \<Longrightarrow> aborts_at_failure client (tr @ evs) res new \<Longrightarrow>
   aborts_at_failure client tr res (evs @ new)"
proof -
  have gen: "\<forall>x \<in> set xs. (\<exists>g. x = Open g) \<Longrightarrow> aborts_at_failure client (tr @ xs) res new \<Longrightarrow>
      aborts_at_failure client tr res (xs @ new)" for xs tr
  proof (induction xs arbitrary: tr)
    case Nil
    then show ?case by simp
  next
    case (Cons x xs)
    then have "aborts_at_failure client (tr @ [x]) res (xs @ new)"
      by simp
    moreover have "\<not> request_fails client (tr @ [x]) e" for e
      using Cons.prems(1) by (auto simp: request_fails_def)
    ultimately show ?case
      using aborts_other [of client tr x res "xs @ new"] by simp
  qed
  assume gf: "get_files host dir cond = (evs, entries)" and a: "aborts_at_failure client (tr @ evs) res new"
  then have "\<exists>os. evs = Walk dir # os \<and> (\<forall>x \<in> set os. (\<exists>g. x = Open g))"
    by (fastforce simp: get_files_def Let_def case_prod_beta)
  then obtain os where evs: "evs = Walk dir # os" "\<forall>x \<in> set os. (\<exists>g. x = Open g)"
    by blast
  from a evs have "aborts_at_failure client ((tr @ [Walk dir]) @ os) res new" by simp
  from gen [OF evs(2) this] have "aborts_at_failure client (tr @ [Walk dir]) res (os @ new)" .
  then have "aborts_at_failure client tr res (Walk dir # os @ new)"
    by (rule aborts_other) (simp add: request_fails_def)
  with evs show ?thesis by simp
qed

lemma Mount_start_begins:
  assumes "\<not> truthy (mount_id self)"
  shows "\<exists>rest. snd (snd (Mount_start host client self tr)) = tr @ MountCreateRequest (client_id client) # rest"
proof -
  let ?c = "MountCreateRequest (client_id client)"
  show ?thesis
  proof (cases "MountCreate client (tr @ [?c])")
    case (Inl e)
    with assms show ?thesis by (simp add: Mount_start_def)
  next
    case (Inr mid)
    obtain evs entries where gf: "get_files host (local_dir self) (condition self) = (evs, entries)"
      by (cases "get_files host (local_dir self) (condition self)") auto
    obtain r2 self2 tr2 where loop:
      "upload_file_requests_loop host client mid entries self ((tr @ [?c]) @ evs) = (r2, self2, tr2)"
      by (cases "upload_file_requests_loop host client mid entries self ((tr @ [?c]) @ evs)") auto
    from loop_aborts [OF loop] obtain new where "tr2 = ((tr @ [?c]) @ evs) @ new" by blast
    with assms Inr gf loop show ?thesis
      by (auto simp: Mount_start_def upload_file_requests_def Let_def split: sum.splits)
  qed
qed



lemma loop_host0_done_fails:
  "upload_file_requests_loop host0 (mount_stub_done_fails mid (\<lambda>f. True)) mid
      [Inr (''./b.py'', ''b.py'', ''#b''), Inr (''./a.py'', ''a.py'', ''#aa'')] mount0 tr
   = (Inr (), mount1,
      tr @ [MountRegisterFileRequest ''/root/b.py'' ''#b'' mid,
       MountRegisterFileResponse ''/root/b.py'' True,
       MountRegisterFileRequest ''/root/a.py'' ''#aa'' mid,
       MountRegisterFileResponse ''/root/a.py'' True])"
  by (simp add: mount1_def mount0_def host0_def mount_stub_done_fails_def mount_stub_def
      echo_register_def accepted_def os_path_join_def Let_def)

lemma Mount_start_host0_done_fails:
  "Mount_start host0 (mount_stub_done_fails ''mo-1'' (\<lambda>f. True)) mount0 [] =
     (Inl (RpcError ''unavailable''), mount1,
      [MountCreateRequest ''cl-1'', Walk ''.'', Open ''./b.py'', Open ''./a.py'',
       MountRegisterFileRequest ''/root/b.py'' ''#b'' ''mo-1'',
       MountRegisterFileResponse ''/root/b.py'' True,
       MountRegisterFileRequest ''/root/a.py'' ''#aa'' ''mo-1'',
       MountRegisterFileResponse ''/root/a.py'' True,
       MountDoneRequest ''mo-1''])"
  using loop_host0_done_fails [of "''mo-1''" "[MountCreateRequest ''cl-1'', Walk ''.'', Open ''./b.py'', Open ''./a.py'']"]
  by (simp add: Mount_start_def upload_file_requests_def get_files_host0 truthy_def
      mount_stub_done_fails_def mount_stub_def accepted_def unavailable_def)


subsection \<open>DebianSlim and its builders\<close>

lemma DebianSlim_init_mounts:
  "mounts (image_heap (snd (DebianSlim_init host la pv w)) ! fst (DebianSlim_init host la pv w))
     = [mount_py_in_workdir_into_root]"
  by (simp add: DebianSlim_init_def Layer_init_def Let_def split: option.splits prod.splits)

text \<open>
  Claim C8, as the code has it. Every image that \<open>DebianSlim.__init__\<close> initializes, and so
  every image that \<open>add_python_packages\<close> and \<open>run_commands\<close> return, has the one
  module-level mount \<open>mount_py_in_workdir_into_root\<close> as its list of mounts: the same Mount
  instance belongs to all of them.
\<close>

theorem DebianSlim_images_share_default_mount:
  "mounts (image_heap (snd (DebianSlim_init host la pv w)) ! fst (DebianSlim_init host la pv w))
     = [mount_py_in_workdir_into_root]
   \<and> mounts (image_heap (snd (add_python_packages host self pkgs w)) ! fst (add_python_packages host self pkgs w))
     = [mount_py_in_workdir_into_root]
   \<and> mounts (image_heap (snd (run_commands host self cmds w)) ! fst (run_commands host self cmds w))
     = [mount_py_in_workdir_into_root]"
  by (simp add: DebianSlim_init_mounts add_python_packages_def run_commands_def Let_def split: prod.splits)

lemma module_init_host0:
  "module_init host0 =
     (0, \<lparr>mount_heap = [mount0],
          layer_heap = [\<lparr>layer_id = None, tag = Some ''python-3.9.7-slim-buster-base'', base_layers = [],
                         dockerfile_commands = [], context_files = []\<rparr>],
          image_heap = [\<lparr>layer = 0, mounts = [0], image_id = None, python_version = ''3.9.7''\<rparr>],
          trace = []\<rparr>)"
  by (simp add: module_init_def Mount_init_def DebianSlim_init_def Layer_init_def mount0_def host0_def
      version_string_def str_int_def str_nat.simps digit_char_def mount_py_in_workdir_into_root_def)

text \<open>
  Claim C8 as stated fails: after the module is loaded and \<open>debian_slim.run_commands([])\<close>
  is called, the images at addresses 0 and 1 are distinct and both hold the mount at
  address 0.
\<close>

theorem mount_shared_counterexample:
  "\<not> mounts_exclusive (snd (run_commands host0 (fst (module_init host0)) [] (snd (module_init host0))))"
proof
  let ?w = "snd (run_commands host0 (fst (module_init host0)) [] (snd (module_init host0)))"
  have w: "image_heap ?w =
      [\<lparr>layer = 0, mounts = [0], image_id = None, python_version = ''3.9.7''\<rparr>,
       \<lparr>layer = 1, mounts = [0], image_id = None, python_version = ''3.9.7''\<rparr>]"
    unfolding module_init_host0 fst_conv snd_conv
    by (simp add: run_commands_def DebianSlim_init_def Layer_init_def host0_def
      version_string_def str_int_def str_nat.simps digit_char_def mount_py_in_workdir_into_root_def)
  assume "mounts_exclusive ?w"
  then have "(0::nat) < length (image_heap ?w) \<and> (1::nat) < length (image_heap ?w) \<and> (0::nat) \<noteq> 1 \<and>
        (0::nat) \<in> set (mounts (image_heap ?w ! 0)) \<longrightarrow> (0::nat) \<notin> set (mounts (image_heap ?w ! 1))"
    unfolding mounts_exclusive_def by blast
  then show False
    by (simp add: w)
qed

text \<open>
  Claim C9. \<open>add_python_packages\<close> and \<open>run_commands\<close> only allocate: the world they return
  is the given one with new layers and one new image appended to the heaps. The new image
  is at a fresh address, its layer is the new layer, and the new layer has the receiver's
  layer as its base \<open>base\<close>; no id is set on the new objects. The receiver and every
  existing layer are as before (fields and cached ids), and so are the mounts.
\<close>

theorem builders_never_mutate:
  "(\<exists>builder newlayer newimage.
      add_python_packages host self pkgs w =
        (length (image_heap w),
         w\<lparr>layer_heap := layer_heap w @ [builder, newlayer], image_heap := image_heap w @ [newimage]\<rparr>) \<and>
      layer newimage = Suc (length (layer_heap w)) \<and>
      base_layers newlayer = [(''base'', layer (image_heap w ! self)), (''builder'', length (layer_heap w))] \<and>
      layer_id newlayer = None \<and> layer_id builder = None \<and> image_id newimage = None)
   \<and> (\<exists>newlayer newimage.
      run_commands host self cmds w =
        (length (image_heap w),
         w\<lparr>layer_heap := layer_heap w @ [newlayer], image_heap := image_heap w @ [newimage]\<rparr>) \<and>
      layer newimage = length (layer_heap w) \<and>
      base_layers newlayer = [(''base'', layer (image_heap w ! self))] \<and>
      layer_id newlayer = None \<and> image_id newimage = None)
   \<and> (self < length (image_heap w) \<longrightarrow>
        fst (add_python_packages host self pkgs w) \<noteq> self \<and>
        fst (run_commands host self cmds w) \<noteq> self \<and>
        image_heap (snd (add_python_packages host self pkgs w)) ! self = image_heap w ! self \<and>
        image_heap (snd (run_commands host self cmds w)) ! self = image_heap w ! self)
   \<and> (\<forall>l < length (layer_heap w).
        layer_heap (snd (add_python_packages host self pkgs w)) ! l = layer_heap w ! l \<and>
        layer_heap (snd (run_commands host self cmds w)) ! l = layer_heap w ! l)
   \<and> mount_heap (snd (add_python_packages host self pkgs w)) = mount_heap w
   \<and> mount_heap (snd (run_commands host self cmds w)) = mount_heap w"
proof -
  let ?B = "\<lparr>layer_id = None,
             tag = Some (''python-'' @ python_version (image_heap w ! self) @ ''-slim-buster-builder''),
             base_layers = [], dockerfile_commands = [], context_files = []\<rparr>"
  let ?L = "\<lparr>layer_id = None, tag = None,
             base_layers = [(''base'', layer (image_heap w ! self)), (''builder'', length (layer_heap w))],
             dockerfile_commands =
               [''FROM builder as builder-vehicle'',
                ''RUN pip wheel '' @ join_spaces pkgs @ '' -w /tmp/wheels'',
                ''FROM base'',
                ''COPY --from=builder-vehicle /tmp/wheels /tmp/wheels'',
                ''RUN pip install /tmp/wheels/*'',
                ''RUN rm -rf /tmp/wheels''],
             context_files = []\<rparr>"
  let ?I = "\<lparr>layer = Suc (length (layer_heap w)), mounts = [mount_py_in_workdir_into_root],
             image_id = None, python_version = version_string (version_info host)\<rparr>"
  have "add_python_packages host self pkgs w =
        (length (image_heap w),
         w\<lparr>layer_heap := layer_heap w @ [?B, ?L], image_heap := image_heap w @ [?I]\<rparr>)"
    by (simp add: add_python_packages_def DebianSlim_init_def Layer_init_def Let_def)
  then have a: "\<exists>builder newlayer newimage.
      add_python_packages host self pkgs w =
        (length (image_heap w),
         w\<lparr>layer_heap := layer_heap w @ [builder, newlayer], image_heap := image_heap w @ [newimage]\<rparr>) \<and>
      layer newimage = Suc (length (layer_heap w)) \<and>
      base_layers newlayer = [(''base'', layer (image_heap w ! self)), (''builder'', length (layer_heap w))] \<and>
      layer_id newlayer = None \<and> layer_id builder = None \<and> image_id newimage = None"
    by (intro exI [of _ ?B] exI [of _ ?L] exI [of _ ?I]) simp
  let ?L' = "\<lparr>layer_id = None, tag = None,
             base_layers = [(''base'', layer (image_heap w ! self))],
             dockerfile_commands = ''FROM base'' # map (\<lambda>command. ''RUN '' @ command) cmds,
             context_files = []\<rparr>"
  let ?I' = "\<lparr>layer = length (layer_heap w), mounts = [mount_py_in_workdir_into_root],
             image_id = None, python_version = version_string (version_info host)\<rparr>"
  have "run_commands host self cmds w =
        (length (image_heap w),
         w\<lparr>layer_heap := layer_heap w @ [?L'], image_heap := image_heap w @ [?I']\<rparr>)"
    by (simp add: run_commands_def DebianSlim_init_def Layer_init_def Let_def)
  then have r: "\<exists>newlayer newimage.
      run_commands host self cmds w =
        (length (image_heap w),
         w\<lparr>layer_heap := layer_heap w @ [newlayer], image_heap := image_heap w @ [newimage]\<rparr>) \<and>
      layer newimage = length (layer_heap w) \<and>
      base_layers newlayer = [(''base'', layer (image_heap w ! self))] \<and>
      layer_id newlayer = None \<and> image_id newimage = None"
    by (intro exI [of _ ?L'] exI [of _ ?I']) simp
  have i: "self < length (image_heap w) \<longrightarrow>
        fst (add_python_packages host self pkgs w) \<noteq> self \<and>
        fst (run_commands host self cmds w) \<noteq> self \<and>
        image_heap (snd (add_python_packages host self pkgs w)) ! self = image_heap w ! self \<and>
        image_heap (snd (run_commands host self cmds w)) ! self = image_heap w ! self"
    by (simp add: add_python_packages_def run_commands_def DebianSlim_init_def Layer_init_def Let_def
        nth_append)
  have l: "\<forall>l < length (layer_heap w).
        layer_heap (snd (add_python_packages host self pkgs w)) ! l = layer_heap w ! l \<and>
        layer_heap (snd (run_commands host self cmds w)) ! l = layer_heap w ! l"
    by (simp add: add_python_packages_def run_commands_def DebianSlim_init_def Layer_init_def Let_def
        nth_append)
  have m: "mount_heap (snd (add_python_packages host self pkgs w)) = mount_heap w"
      "mount_heap (snd (run_commands host self cmds w)) = mount_heap w"
    by (simp_all add: add_python_packages_def run_commands_def DebianSlim_init_def Layer_init_def Let_def)
  from a r i l m show ?thesis
    by (intro conjI)
qed

text \<open>Claim C9 on the module's \<open>debian_slim\<close>.\<close>

theorem builders_never_mutate_witness:
  "image_heap (snd (add_python_packages host0 0 [''numpy''] (snd (module_init host0)))) ! 0
     = image_heap (snd (module_init host0)) ! 0
   \<and> layer_heap (snd (add_python_packages host0 0 [''numpy''] (snd (module_init host0)))) ! 0
     = layer_heap (snd (module_init host0)) ! 0
   \<and> image_heap (snd (run_commands host0 0 [''apt-get update''] (snd (module_init host0)))) ! 0
     = image_heap (snd (module_init host0)) ! 0
   \<and> layer_heap (snd (run_commands host0 0 [''apt-get update''] (snd (module_init host0)))) ! 0
     = layer_heap (snd (module_init host0)) ! 0"
proof -
  have len: "(0::nat) < length (image_heap (snd (module_init host0)))"
      "(0::nat) < length (layer_heap (snd (module_init host0)))"
    by (simp_all add: module_init_host0)
  from builders_never_mutate [of host0 0 "[''numpy'']" "snd (module_init host0)" "[''apt-get update'']"] len
  show ?thesis
    by blast
qed

subsection \<open>Layer.start\<close>

lemma creates_simps [simp]:
  "creates x [] = 0"
  "creates x (tr @ tr') = creates x tr + creates x tr'"
  "creates x [LayerCreateRequest r c d] = (if r = x then 1 else 0)"
  by (simp_all add: creates_def)

lemma layer_change_refl: "layer_change l l 0 below ok"
  by (simp add: layer_change_def)

lemma layer_change_mono:
  "layer_change old new n below ok \<Longrightarrow> (below \<Longrightarrow> below') \<Longrightarrow> layer_change old new n below' ok"
  unfolding layer_change_def by blast

lemma set_id_differs: "layer_id l = None \<Longrightarrow> l\<lparr>layer_id := Some lid\<rparr> \<noteq> l"
  by (metis Layer.select_convs(1) Layer.surjective Layer.update_convs(1) option.distinct(1))

lemma layer_change_trans:
  assumes 1: "layer_change a b k1 below True" and 2: "layer_change b c k2 below ok"
  shows "layer_change a c (k1 + k2) below ok"
proof (cases "b = a")
  case True
  with 1 have "k1 = 0" by (simp add: layer_change_def)
  with True 2 show ?thesis by simp
next
  case False
  with 1 obtain lid where b: "k1 = 1" "b = a\<lparr>layer_id := Some lid\<rparr>" "below" "layer_id a = None"
    unfolding layer_change_def by auto
  then have "layer_id b \<noteq> None" by simp
  with 2 have c: "c = b" "k2 = 0" by (simp_all add: layer_change_def)
  from b(2,4) have "b \<noteq> a" by (simp add: set_id_differs)
  with b c show ?thesis
    unfolding layer_change_def by auto
qed

lemma layer_run_refl: "wf_layers w \<Longrightarrow> layer_run w w [] bound ok"
  by (simp add: layer_run_def layer_change_refl)

lemma layer_run_mono: "layer_run w w' new b ok \<Longrightarrow> b \<le> b' \<Longrightarrow> layer_run w w' new b' ok"
  unfolding layer_run_def using layer_change_mono by (metis (no_types, lifting) order_less_le_trans)

lemma layer_run_trans:
  assumes 1: "layer_run w w1 new1 b True" and 2: "layer_run w1 w2 new2 b ok"
  shows "layer_run w w2 (new1 @ new2) b ok"
proof -
  have len: "length (layer_heap w1) = length (layer_heap w)" "length (layer_heap w2) = length (layer_heap w)"
    using 1 2 by (simp_all add: layer_run_def)
  have tr: "trace w2 = trace w @ new1 @ new2" and wf: "wf_layers w2"
    using 1 2 by (simp_all add: layer_run_def)
  have "layer_change (layer_heap w ! x) (layer_heap w2 ! x) (creates x (new1 @ new2)) (x < b) ok"
    if x: "x < length (layer_heap w)" for x
  proof -
    from 1 x have "layer_change (layer_heap w ! x) (layer_heap w1 ! x) (creates x new1) (x < b) True"
      by (simp add: layer_run_def)
    moreover from 2 x len have "layer_change (layer_heap w1 ! x) (layer_heap w2 ! x) (creates x new2) (x < b) ok"
      by (simp add: layer_run_def)
    ultimately show ?thesis
      using layer_change_trans by simp
  qed
  with len tr wf show ?thesis
    by (simp add: layer_run_def)
qed


lemma wf_layers_trace [simp]: "wf_layers (w\<lparr>trace := t\<rparr>) = wf_layers w"
  by (simp add: wf_layers_def)

lemma base_layers_set_id:
  "x < length h \<Longrightarrow> base_layers (h[r := (h ! r)\<lparr>layer_id := v\<rparr>] ! x) = base_layers (h ! x)"
  by (cases "x = r") simp_all

lemma wf_layers_set_id:
  "wf_layers w \<Longrightarrow> wf_layers (w\<lparr>layer_heap := (layer_heap w)[r := (layer_heap w ! r)\<lparr>layer_id := Some lid\<rparr>]\<rparr>)"
  unfolding wf_layers_def by (simp add: base_layers_set_id)

lemma layer_run_create_failed:
  assumes "wf_layers w" and "r < length (layer_heap w)" and "layer_id (layer_heap w ! r) = None"
  shows "layer_run w (w\<lparr>trace := trace w @ [LayerCreateRequest r c d]\<rparr>) [LayerCreateRequest r c d] (Suc r) False"
  using assms by (simp add: layer_run_def layer_change_def)

lemma layer_run_created:
  assumes "wf_layers w" and "r < length (layer_heap w)" and "layer_id (layer_heap w ! r) = None"
  shows "layer_run w
     (w\<lparr>trace := trace w @ [LayerCreateRequest r c d],
        layer_heap := (layer_heap w)[r := (layer_heap w ! r)\<lparr>layer_id := Some lid\<rparr>]\<rparr>)
     [LayerCreateRequest r c d] (Suc r) True"
proof -
  let ?w' = "w\<lparr>trace := trace w @ [LayerCreateRequest r c d],
        layer_heap := (layer_heap w)[r := (layer_heap w ! r)\<lparr>layer_id := Some lid\<rparr>]\<rparr>"
  have "wf_layers ?w'"
    using wf_layers_set_id [OF assms(1), of r lid] by (simp add: wf_layers_def)
  moreover have "layer_change (layer_heap w ! x) (layer_heap ?w' ! x)
      (creates x [LayerCreateRequest r c d]) (x < Suc r) True" if "x < length (layer_heap w)" for x
    using assms that by (auto simp: layer_change_def nth_list_update set_id_differs)
  ultimately show ?thesis
    by (simp add: layer_run_def)
qed

lemma start_base_layers_run:
  assumes start: "\<And>l w res w'. wf_layers w \<Longrightarrow> l < length (layer_heap w) \<Longrightarrow> start l w = Some (res, w') \<Longrightarrow>
      \<exists>new. layer_run w w' new (Suc l) (\<not> isl res) \<and>
        (\<forall>lid. res = Inr lid \<longrightarrow> layer_id (layer_heap w' ! l) = Some lid)"
  shows "wf_layers w \<Longrightarrow> \<forall>tb \<in> set bs. snd tb < bound \<Longrightarrow> bound \<le> length (layer_heap w) \<Longrightarrow>
     start_base_layers start bs acc w = Some (res, w') \<Longrightarrow>
     \<exists>new. layer_run w w' new bound (\<not> isl res) \<and>
       (\<not> isl res \<longrightarrow> (\<forall>tb \<in> set bs. layer_id (layer_heap w' ! snd tb) \<noteq> None))"
proof (induction bs arbitrary: acc w)
  case Nil
  then have "res = Inr acc" "w' = w" by simp_all
  with layer_run_refl [OF Nil.prems(1), of bound True] show ?case by auto
next
  case (Cons tb bs)
  obtain dtag l where tb: "tb = (dtag, l)" by (cases tb) auto
  from Cons.prems tb have l: "l < bound" "l < length (layer_heap w)" by auto
  from Cons.prems(4) tb obtain r1 w1 where s1: "start l w = Some (r1, w1)"
    by (cases "start l w") auto
  from start [OF Cons.prems(1) l(2) s1] obtain new1 where
    run1: "layer_run w w1 new1 (Suc l) (\<not> isl r1)"
    and id1: "\<forall>lid. r1 = Inr lid \<longrightarrow> layer_id (layer_heap w1 ! l) = Some lid"
    by blast
  from run1 l(1) have run1b: "layer_run w w1 new1 bound (\<not> isl r1)"
    by (intro layer_run_mono [OF run1]) simp
  show ?case
  proof (cases r1)
    case (Inl e)
    with Cons.prems(4) tb s1 have "res = Inl e" "w' = w1" by simp_all
    with run1b Inl show ?thesis by auto
  next
    case (Inr lid)
    with Cons.prems(4) tb s1
    have rest: "start_base_layers start bs (acc @ [\<lparr>docker_tag = dtag, base_layer_id = lid\<rparr>]) w1 = Some (res, w')"
      by simp
    from run1b have w1: "wf_layers w1" "length (layer_heap w1) = length (layer_heap w)"
      by (simp_all add: layer_run_def)
    from Cons.IH [OF w1(1) _ _ rest] Cons.prems(2,3) w1(2) obtain new2 where
      run2: "layer_run w1 w' new2 bound (\<not> isl res)"
      and ids: "\<not> isl res \<longrightarrow> (\<forall>tb \<in> set bs. layer_id (layer_heap w' ! snd tb) \<noteq> None)"
      by auto
    from run1b Inr have "layer_run w w1 new1 bound True" by simp
    from layer_run_trans [OF this run2] have run: "layer_run w w' (new1 @ new2) bound (\<not> isl res)" .
    from id1 Inr have "layer_id (layer_heap w1 ! l) \<noteq> None" by simp
    moreover from run2 l(2) w1(2)
    have "layer_change (layer_heap w1 ! l) (layer_heap w' ! l) (creates l new2) (l < bound) (\<not> isl res)"
      by (simp add: layer_run_def)
    ultimately have "layer_id (layer_heap w' ! l) \<noteq> None"
      by (auto simp: layer_change_def)
    with run ids tb show ?thesis by auto
  qed
qed

lemma Layer_start_run:
  "wf_layers w \<Longrightarrow> r < length (layer_heap w) \<Longrightarrow> Layer_start n client r w = Some (res, w') \<Longrightarrow>
   \<exists>new. layer_run w w' new (Suc r) (\<not> isl res) \<and>
     (\<forall>lid. res = Inr lid \<longrightarrow> layer_id (layer_heap w' ! r) = Some lid)"
proof (induction n arbitrary: r w res w')
  case 0
  then show ?case by simp
next
  case (Suc n)
  show ?case
  proof (cases "layer_id (layer_heap w ! r)")
    case (Some lid)
    with Suc.prems have "res = Inr lid" "w' = w" by simp_all
    with Some layer_run_refl [OF Suc.prems(1), of "Suc r" True] show ?thesis by auto
  next
    case None
    let ?bs = "base_layers (layer_heap w ! r)"
    from Suc.prems(3) None obtain rb w1 where
      bases: "start_base_layers (Layer_start n client) ?bs [] w = Some (rb, w1)"
      by (cases "start_base_layers (Layer_start n client) ?bs [] w") auto
    have below: "\<forall>tb \<in> set ?bs. snd tb < r"
      using Suc.prems(1,2) by (simp add: wf_layers_def)
    have "\<exists>new. layer_run w w1 new r (\<not> isl rb) \<and>
       (\<not> isl rb \<longrightarrow> (\<forall>tb \<in> set ?bs. layer_id (layer_heap w1 ! snd tb) \<noteq> None))"
      by (rule start_base_layers_run [OF Suc.IH Suc.prems(1) below _ bases]) (use Suc.prems(2) in simp_all)
    then obtain new1 where run1: "layer_run w w1 new1 r (\<not> isl rb)" by blast
    then have run1s: "layer_run w w1 new1 (Suc r) (\<not> isl rb)"
      by (rule layer_run_mono) simp
    show ?thesis
    proof (cases rb)
      case (Inl e)
      with Suc.prems(3) None bases have "res = Inl e" "w' = w1" by simp_all
      with run1s Inl show ?thesis by auto
    next
      case (Inr bls)
      from run1 Suc.prems(2) have same: "layer_heap w1 ! r = layer_heap w ! r"
        and w1: "wf_layers w1" "length (layer_heap w1) = length (layer_heap w)"
        by (simp_all add: layer_run_def layer_change_def)
      let ?q = "LayerCreateRequest r (client_id client) (layer_definition (layer_heap w1 ! r) bls)"
      from run1s Inr have t1: "layer_run w w1 new1 (Suc r) True" by simp
      have r1: "r < length (layer_heap w1)" "layer_id (layer_heap w1 ! r) = None"
        using w1 Suc.prems(2) same None by simp_all
      show ?thesis
      proof (cases "LayerCreate client (trace w1 @ [?q])")
        case (Inl e)
        with Suc.prems(3) None bases Inr
        have r: "res = Inl e" "w' = w1\<lparr>trace := trace w1 @ [?q]\<rparr>"
          by (simp_all add: Let_def)
        from layer_run_trans [OF t1 layer_run_create_failed [OF w1(1) r1]] r
        show ?thesis by auto
      next
        case lid: (Inr lid)
        with Suc.prems(3) None bases Inr
        have r: "res = Inr lid"
          "w' = w1\<lparr>trace := trace w1 @ [?q],
                    layer_heap := (layer_heap w1)[r := (layer_heap w1 ! r)\<lparr>layer_id := Some lid\<rparr>]\<rparr>"
          by (simp_all add: Let_def)
        from layer_run_trans [OF t1 layer_run_created [OF w1(1) r1]] r
        have "layer_run w w' (new1 @ [?q]) (Suc r) (\<not> isl res)" by simp
        moreover have "layer_id (layer_heap w' ! r) = Some lid"
          using r r1 by simp
        ultimately show ?thesis using r by auto
      qed
    qed
  qed
qed

lemma Layer_start_cached:
  "layer_id (layer_heap w ! r) = Some lid \<Longrightarrow> Layer_start (Suc k) client r w = Some (Inr lid, w)"
  by simp

lemma start_base_layers_cached:
  "\<forall>tb \<in> set bs. layer_id (layer_heap w ! snd tb) \<noteq> None \<Longrightarrow>
   \<exists>bls. start_base_layers (Layer_start (Suc k) client) bs acc w = Some (Inr bls, w)"
proof (induction bs arbitrary: acc)
  case Nil
  then show ?case by simp
next
  case (Cons tb bs)
  obtain dtag l where tb: "tb = (dtag, l)" by (cases tb) auto
  with Cons.prems obtain lid where lid: "layer_id (layer_heap w ! l) = Some lid" by auto
  from Cons.prems have "\<forall>tb \<in> set bs. layer_id (layer_heap w ! snd tb) \<noteq> None"
    by simp
  from Cons.IH [OF this, of "acc @ [\<lparr>docker_tag = dtag, base_layer_id = lid\<rparr>]"]
  obtain bls where "start_base_layers (Layer_start (Suc k) client) bs
      (acc @ [\<lparr>docker_tag = dtag, base_layer_id = lid\<rparr>]) w = Some (Inr bls, w)"
    by blast
  with tb Layer_start_cached [OF lid, of k client] show ?case
    by (simp del: Layer_start.simps)
qed

lemma bases_realized:
  assumes wf: "wf_layers w" and r: "r < length (layer_heap w)"
    and bases: "start_base_layers (Layer_start n client) (base_layers (layer_heap w ! r)) [] w = Some (Inr bls, w1)"
  shows "layer_run w w1 (drop (length (trace w)) (trace w1)) r True"
    and "\<forall>tb \<in> set (base_layers (layer_heap w ! r)). layer_id (layer_heap w1 ! snd tb) \<noteq> None"
    and "layer_heap w1 ! r = layer_heap w ! r"
proof -
  have below: "\<forall>tb \<in> set (base_layers (layer_heap w ! r)). snd tb < r"
    using wf r by (simp add: wf_layers_def)
  have "\<exists>new. layer_run w w1 new r (\<not> isl (Inr bls :: error + BaseLayer list)) \<and>
       (\<not> isl (Inr bls :: error + BaseLayer list) \<longrightarrow>
          (\<forall>tb \<in> set (base_layers (layer_heap w ! r)). layer_id (layer_heap w1 ! snd tb) \<noteq> None))"
    by (rule start_base_layers_run [OF Layer_start_run wf below _ bases]) (use r in simp_all)
  then obtain new where new: "layer_run w w1 new r True"
    and ids: "\<forall>tb \<in> set (base_layers (layer_heap w ! r)). layer_id (layer_heap w1 ! snd tb) \<noteq> None"
    by auto
  from new have "trace w1 = trace w @ new" by (simp add: layer_run_def)
  then have "new = drop (length (trace w)) (trace w1)" by simp
  with new show "layer_run w w1 (drop (length (trace w)) (trace w1)) r True" by simp
  from ids show "\<forall>tb \<in> set (base_layers (layer_heap w ! r)). layer_id (layer_heap w1 ! snd tb) \<noteq> None" .
  from new r show "layer_heap w1 ! r = layer_heap w ! r"
    by (simp add: layer_run_def layer_change_def)
qed

text \<open>
  Claim C10. In a heap as the constructors build it, take a layer \<open>r\<close> without id whose base
  layers are all realized by the loop of \<open>Layer.start\<close> and whose own \<open>LayerCreate\<close> request
  \<open>q\<close> then fails with \<open>e\<close>. Then \<open>Layer.start\<close> ends with \<open>e\<close>; the layer \<open>r\<close> is as it
  was (no id, same tag, base layers, commands and context files); each of its base layers
  has an id; every layer that had an id before is as it was; and a later start of \<open>r\<close>,
  with any client, adds exactly one event to the trace, the \<open>LayerCreate\<close> request of \<open>r\<close>
  itself: nothing is sent again for the bases.
\<close>

theorem Layer_start_failed_create:
  assumes wf: "wf_layers w" and r: "r < length (layer_heap w)"
    and unset: "layer_id (layer_heap w ! r) = None"
    and bases: "start_base_layers (Layer_start n client) (base_layers (layer_heap w ! r)) [] w = Some (Inr bls, w1)"
    and q: "q = LayerCreateRequest r (client_id client) (layer_definition (layer_heap w1 ! r) bls)"
    and fail: "LayerCreate client (trace w1 @ [q]) = Inl e"
    and w': "w' = w1\<lparr>trace := trace w1 @ [q]\<rparr>"
  shows "Layer_start (Suc n) client r w = Some (Inl e, w')
     \<and> layer_heap w' ! r = layer_heap w ! r
     \<and> (\<forall>tb \<in> set (base_layers (layer_heap w ! r)). layer_id (layer_heap w' ! snd tb) \<noteq> None)
     \<and> (\<forall>x < length (layer_heap w). layer_id (layer_heap w ! x) \<noteq> None \<longrightarrow>
           layer_heap w' ! x = layer_heap w ! x)
     \<and> (\<forall>client2 m. \<exists>res d w''.
           Layer_start (Suc (Suc m)) client2 r w' = Some (res, w'') \<and>
           trace w'' = trace w' @ [LayerCreateRequest r (client_id client2) d])"
proof -
  note b = bases_realized [OF wf r bases]
  have 1: "Layer_start (Suc n) client r w = Some (Inl e, w')"
    using unset bases fail by (simp add: q w' Let_def)
  have 2: "layer_heap w' ! r = layer_heap w ! r"
    using b(3) by (simp add: w')
  have 3: "\<forall>tb \<in> set (base_layers (layer_heap w ! r)). layer_id (layer_heap w' ! snd tb) \<noteq> None"
    using b(2) by (simp add: w')
  have 4: "\<forall>x < length (layer_heap w). layer_id (layer_heap w ! x) \<noteq> None \<longrightarrow>
           layer_heap w' ! x = layer_heap w ! x"
    using b(1) by (simp add: w' layer_run_def layer_change_def)
  have 5: "\<forall>client2 m. \<exists>res d w''.
           Layer_start (Suc (Suc m)) client2 r w' = Some (res, w'') \<and>
           trace w'' = trace w' @ [LayerCreateRequest r (client_id client2) d]"
  proof (intro allI)
    fix client2 m
    have none: "layer_id (layer_heap w' ! r) = None"
      using 2 unset by simp
    have "\<forall>tb \<in> set (base_layers (layer_heap w' ! r)). layer_id (layer_heap w' ! snd tb) \<noteq> None"
      using 2 3 by simp
    from start_base_layers_cached [OF this, of m client2 "[]"]
    obtain bls2 where c: "start_base_layers (Layer_start (Suc m) client2) (base_layers (layer_heap w' ! r)) [] w'
        = Some (Inr bls2, w')"
      by blast
    let ?q2 = "LayerCreateRequest r (client_id client2) (layer_definition (layer_heap w' ! r) bls2)"
    show "\<exists>res d w''. Layer_start (Suc (Suc m)) client2 r w' = Some (res, w'') \<and>
           trace w'' = trace w' @ [LayerCreateRequest r (client_id client2) d]"
    proof (cases "LayerCreate client2 (trace w' @ [?q2])")
      case (Inl e2)
      with none c have "Layer_start (Suc (Suc m)) client2 r w' = Some (Inl e2, w'\<lparr>trace := trace w' @ [?q2]\<rparr>)"
        by (simp add: Let_def)
      then show ?thesis by force
    next
      case (Inr lid)
      with none c have "Layer_start (Suc (Suc m)) client2 r w' =
          Some (Inr lid, w'\<lparr>trace := trace w' @ [?q2],
                  layer_heap := (layer_heap w')[r := (layer_heap w' ! r)\<lparr>layer_id := Some lid\<rparr>]\<rparr>)"
        by (simp add: Let_def)
      then show ?thesis by force
    qed
  qed
  from 1 2 3 4 5 show ?thesis by (intro conjI)
qed


lemma wf_layers0: "wf_layers layers0"
  by (auto simp: wf_layers_def layers0_def leaf_layer_def child_layer_def nth_Cons split: nat.splits)

lemma layers0_bases_of_1:
  "start_base_layers (Layer_start (Suc 0) (layer_stub refused)) (base_layers (layer_heap layers0 ! 1)) [] layers0 =
     (if 0 \<in> set refused
      then Some (Inl (RpcError ''unavailable''), layers0\<lparr>trace := [LayerCreateRequest 0 ''cl-1'' (layer_definition leaf_layer [])]\<rparr>)
      else Some (Inr [\<lparr>docker_tag = ''base'', base_layer_id = ''la-1''\<rparr>], layers1))"
  by (simp add: layers1_def layers0_def leaf_layer_def child_layer_def layer_stub_def layer_create_def
      str_nat.simps digit_char_def Let_def)

text \<open>Claim C10 on the layer at address 1, whose request the stub refuses.\<close>

theorem Layer_start_failed_create_witness:
  "Layer_start (Suc (Suc 0)) (layer_stub [1]) 1 layers0 =
     Some (Inl (RpcError ''unavailable''),
           layers1\<lparr>trace := trace layers1 @
             [LayerCreateRequest 1 ''cl-1'' (layer_definition (layer_heap layers1 ! 1)
                [\<lparr>docker_tag = ''base'', base_layer_id = ''la-1''\<rparr>])]\<rparr>)
   \<and> layer_heap layers1 ! 1 = layer_heap layers0 ! 1
   \<and> layer_id (layer_heap layers1 ! 0) = Some ''la-1''
   \<and> (\<exists>res d w''.
        Layer_start (Suc (Suc 0)) (layer_stub []) 1
          (layers1\<lparr>trace := trace layers1 @
             [LayerCreateRequest 1 ''cl-1'' (layer_definition (layer_heap layers1 ! 1)
                [\<lparr>docker_tag = ''base'', base_layer_id = ''la-1''\<rparr>])]\<rparr>) = Some (res, w'') \<and>
        trace w'' = trace layers1 @
             [LayerCreateRequest 1 ''cl-1'' (layer_definition (layer_heap layers1 ! 1)
                [\<lparr>docker_tag = ''base'', base_layer_id = ''la-1''\<rparr>])] @
             [LayerCreateRequest 1 ''cl-1'' d])"
proof -
  let ?q = "LayerCreateRequest 1 (client_id (layer_stub [1])) (layer_definition (layer_heap layers1 ! 1)
                [\<lparr>docker_tag = ''base'', base_layer_id = ''la-1''\<rparr>])"
  let ?w' = "layers1\<lparr>trace := trace layers1 @ [?q]\<rparr>"
  have r: "(1::nat) < length (layer_heap layers0)" and unset: "layer_id (layer_heap layers0 ! 1) = None"
    by (simp_all add: layers0_def child_layer_def)
  have bases: "start_base_layers (Layer_start (Suc 0) (layer_stub [1])) (base_layers (layer_heap layers0 ! 1)) []
      layers0 = Some (Inr [\<lparr>docker_tag = ''base'', base_layer_id = ''la-1''\<rparr>], layers1)"
    using layers0_bases_of_1 [of "[1]"] by simp
  have fail: "LayerCreate (layer_stub [1]) (trace layers1 @ [?q]) = Inl (RpcError ''unavailable'')"
    by (simp add: layer_stub_def layer_create_def)
  have cid: "client_id (layer_stub refused) = ''cl-1''" for refused
    by (simp add: layer_stub_def)
  note t = Layer_start_failed_create [OF wf_layers0 r unset bases refl fail refl]
  from t have 1: "Layer_start (Suc (Suc 0)) (layer_stub [1]) 1 layers0 = Some (Inl (RpcError ''unavailable''), ?w')"
    by blast
  from t have 2: "layer_heap ?w' ! 1 = layer_heap layers0 ! 1" by blast
  from t have "\<forall>tb \<in> set (base_layers (layer_heap layers0 ! 1)). layer_id (layer_heap ?w' ! snd tb) \<noteq> None"
    by blast
  then have 3: "layer_id (layer_heap layers1 ! 0) = Some ''la-1''"
    by (simp add: layers1_def layers0_def)
  from t have "\<forall>(client2 :: unit client) m. \<exists>res d w''.
           Layer_start (Suc (Suc m)) client2 1 ?w' = Some (res, w'') \<and>
           trace w'' = trace ?w' @ [LayerCreateRequest 1 (client_id client2) d]"
    by blast
  then have 4: "\<exists>res d w''. Layer_start (Suc (Suc 0)) (layer_stub []) 1 ?w' = Some (res, w'') \<and>
           trace w'' = trace ?w' @ [LayerCreateRequest 1 (client_id (layer_stub [])) d]"
    by blast
  from 1 2 3 4 show ?thesis
    by (simp add: cid)
qed

lemma Layer_start_realizes_bases:
  assumes wf: "wf_layers w" and r: "r < length (layer_heap w)"
    and unset: "layer_id (layer_heap w ! r) = None"
    and run: "Layer_start n client r w = Some (Inr lid, w')"
  shows "\<forall>tb \<in> set (base_layers (layer_heap w ! r)). layer_id (layer_heap w' ! snd tb) \<noteq> None"
proof -
  from run obtain k where n: "n = Suc k" by (cases n) auto
  let ?bs = "base_layers (layer_heap w ! r)"
  from run n unset obtain rb w1 where
    bases: "start_base_layers (Layer_start k client) ?bs [] w = Some (rb, w1)"
    by (cases "start_base_layers (Layer_start k client) ?bs [] w") auto
  from run n unset bases obtain bls where rb: "rb = Inr bls"
    by (cases rb) auto
  note b = bases_realized [OF wf r bases [unfolded rb]]
  let ?q = "LayerCreateRequest r (client_id client) (layer_definition (layer_heap w1 ! r) bls)"
  from run n unset bases rb
  have w': "layer_heap w' = (layer_heap w1)[r := (layer_heap w1 ! r)\<lparr>layer_id := Some lid\<rparr>]"
    by (auto simp: Let_def split: sum.splits)
  have below: "\<forall>tb \<in> set ?bs. snd tb < r"
    using wf r by (simp add: wf_layers_def)
  show ?thesis
  proof
    fix tb assume tb: "tb \<in> set ?bs"
    with below have "snd tb \<noteq> r" by auto
    then have "layer_heap w' ! snd tb = layer_heap w1 ! snd tb"
      by (simp add: w')
    with b(2) tb show "layer_id (layer_heap w' ! snd tb) \<noteq> None" by simp
  qed
qed

lemma layer_run_kept:
  assumes "layer_run w w' new b ok" and "x < length (layer_heap w)" and "layer_id (layer_heap w ! x) \<noteq> None"
  shows "layer_heap w' ! x = layer_heap w ! x" and "creates x new = 0"
  using assms by (simp_all add: layer_run_def layer_change_def)

lemma layer_run_set:
  assumes "layer_run w w' new b ok" and "x < length (layer_heap w)" and "layer_id (layer_heap w ! x) = None"
    and "layer_id (layer_heap w' ! x) \<noteq> None"
  shows "creates x new = 1"
proof -
  from assms(1,2) have "layer_change (layer_heap w ! x) (layer_heap w' ! x) (creates x new) (x < b) ok"
    by (simp add: layer_run_def)
  moreover from assms(3,4) have "layer_heap w' ! x \<noteq> layer_heap w ! x" by auto
  ultimately show ?thesis
    by (simp add: layer_change_def)
qed

text \<open>
  \<open>Layer.start\<close> returns: in a heap as the constructors build it, a depth above the
  address of the layer is enough for the recursion, whatever the remote side answers; and
  when the remote side answers every \<open>LayerCreate\<close> request with an id, the result is an id.
\<close>

lemma start_base_layers_returns:
  assumes start: "\<And>l w. wf_layers w \<Longrightarrow> l < length (layer_heap w) \<Longrightarrow> l < bound \<Longrightarrow>
      \<exists>res w'. start l w = Some (res, w') \<and> wf_layers w' \<and>
        length (layer_heap w') = length (layer_heap w) \<and> (ok \<longrightarrow> \<not> isl res)"
  shows "wf_layers w \<Longrightarrow> \<forall>tb \<in> set bs. snd tb < bound \<and> snd tb < length (layer_heap w) \<Longrightarrow>
     \<exists>res w'. start_base_layers start bs acc w = Some (res, w') \<and> (ok \<longrightarrow> \<not> isl res)"
proof (induction bs arbitrary: acc w)
  case Nil
  then show ?case by simp
next
  case (Cons tb bs)
  obtain dtag l where tb: "tb = (dtag, l)" by (cases tb) auto
  from Cons.prems tb have l: "l < bound" "l < length (layer_heap w)" by auto
  from start [OF Cons.prems(1) l(2) l(1)] obtain r1 w1 where
    s1: "start l w = Some (r1, w1)" and w1: "wf_layers w1" "length (layer_heap w1) = length (layer_heap w)"
    and ok1: "ok \<longrightarrow> \<not> isl r1"
    by blast
  show ?case
  proof (cases r1)
    case (Inl e)
    with s1 tb ok1 show ?thesis by simp
  next
    case (Inr lid)
    from Cons.prems(2) w1(2) have "\<forall>tb \<in> set bs. snd tb < bound \<and> snd tb < length (layer_heap w1)"
      by simp
    from Cons.IH [OF w1(1) this, of "acc @ [\<lparr>docker_tag = dtag, base_layer_id = lid\<rparr>]"]
    show ?thesis using s1 tb Inr by simp
  qed
qed

lemma Layer_start_returns_aux:
  "wf_layers w \<Longrightarrow> r < length (layer_heap w) \<Longrightarrow> r < n \<Longrightarrow>
   \<exists>res w'. Layer_start n client r w = Some (res, w') \<and> wf_layers w' \<and>
     length (layer_heap w') = length (layer_heap w) \<and>
     ((\<forall>h r' c d. \<exists>lid. LayerCreate client (h @ [LayerCreateRequest r' c d]) = Inr lid) \<longrightarrow> \<not> isl res)"
proof (induction n arbitrary: r w)
  case 0
  then show ?case by simp
next
  case (Suc n)
  let ?ok = "\<forall>h r' c d. \<exists>lid. LayerCreate client (h @ [LayerCreateRequest r' c d]) = Inr lid"
  have kept: "wf_layers w' \<and> length (layer_heap w') = length (layer_heap w)"
    if "Layer_start (Suc n) client r w = Some (res, w')" for res w'
    using Layer_start_run [OF Suc.prems(1,2) that] by (auto simp: layer_run_def)
  show ?case
  proof (cases "layer_id (layer_heap w ! r)")
    case (Some lid)
    with Suc.prems show ?thesis by simp
  next
    case None
    let ?bs = "base_layers (layer_heap w ! r)"
    have below: "\<forall>tb \<in> set ?bs. snd tb < n \<and> snd tb < length (layer_heap w)"
      using Suc.prems by (fastforce simp: wf_layers_def)
    have "\<exists>rb w1. start_base_layers (Layer_start n client) ?bs [] w = Some (rb, w1) \<and> (?ok \<longrightarrow> \<not> isl rb)"
      by (rule start_base_layers_returns [where bound = n, OF _ Suc.prems(1) below]) (rule Suc.IH)
    then obtain rb w1 where
      bases: "start_base_layers (Layer_start n client) ?bs [] w = Some (rb, w1)"
      and okb: "?ok \<longrightarrow> \<not> isl rb"
      by blast
    show ?thesis
    proof (cases rb)
      case (Inl e)
      with None bases have run: "Layer_start (Suc n) client r w = Some (Inl e, w1)" by simp
      from kept [OF run] run okb Inl show ?thesis by simp
    next
      case (Inr bls)
      let ?q = "LayerCreateRequest r (client_id client) (layer_definition (layer_heap w1 ! r) bls)"
      show ?thesis
      proof (cases "LayerCreate client (trace w1 @ [?q])")
        case e: (Inl e)
        with None bases Inr
        have run: "Layer_start (Suc n) client r w = Some (Inl e, w1\<lparr>trace := trace w1 @ [?q]\<rparr>)"
          by (simp add: Let_def)
        from e have "\<not> ?ok" by (metis sum.distinct(1))
        with kept [OF run] run show ?thesis by simp
      next
        case lid: (Inr lid)
        with None bases Inr
        have run: "Layer_start (Suc n) client r w = Some (Inr lid,
            w1\<lparr>trace := trace w1 @ [?q],
               layer_heap := (layer_heap w1)[r := (layer_heap w1 ! r)\<lparr>layer_id := Some lid\<rparr>]\<rparr>)"
          by (simp add: Let_def)
        from kept [OF run] run show ?thesis by simp
      qed
    qed
  qed
qed

lemma Layer_start_returns:
  assumes "wf_layers w" and "r < length (layer_heap w)" and "r < n"
  shows "\<exists>res w'. Layer_start n client r w = Some (res, w')"
  using Layer_start_returns_aux [OF assms] by blast

lemma Layer_start_succeeds:
  assumes "wf_layers w" and "r < length (layer_heap w)" and "r < n"
    and "\<forall>h r' c d. \<exists>lid. LayerCreate client (h @ [LayerCreateRequest r' c d]) = Inr lid"
  shows "\<exists>lid w'. Layer_start n client r w = Some (Inr lid, w')"
proof -
  from Layer_start_returns_aux [OF assms(1-3), of client] assms(4)
  obtain res w' where "Layer_start n client r w = Some (res, w')" "\<not> isl res" by blast
  then show ?thesis by (cases res) auto
qed

text \<open>
  Claim C5. In a heap as the constructors build it, against a remote side that answers
  every \<open>LayerCreate\<close> request with an id: if the layer \<open>c\<close>, which has no id, is a base
  layer of both \<open>p1\<close> and \<open>p2\<close>, and \<open>p1\<close> (which has no id) and then \<open>p2\<close> are started,
  both starts return an id, the instance \<open>c\<close> sends exactly one \<open>LayerCreate\<close> request,
  during the start of \<open>p1\<close>, and none during the start of \<open>p2\<close>, which finds the id of
  \<open>c\<close> set and leaves \<open>c\<close> as it is. And if \<open>c1\<close> and \<open>c2\<close> are distinct instances with
  the same content and no id, and \<open>c1\<close> and then \<open>c2\<close> are started, both starts return an
  id, each of the two instances sends exactly one \<open>LayerCreate\<close> request of its own, and
  each holds the id that its own start returned. The depths allowed are above the
  addresses of the layers started.
\<close>

theorem shared_base_layer_created_once:
  assumes wf: "wf_layers w"
    and ok: "\<forall>h r c d. \<exists>lid. LayerCreate client (h @ [LayerCreateRequest r c d]) = Inr lid"
    and ok2: "\<forall>h r c d. \<exists>lid. LayerCreate client2 (h @ [LayerCreateRequest r c d]) = Inr lid"
  shows "(p1 < length (layer_heap w) \<and> p2 < length (layer_heap w) \<and>
          (t1, c) \<in> set (base_layers (layer_heap w ! p1)) \<and>
          (t2, c) \<in> set (base_layers (layer_heap w ! p2)) \<and>
          layer_id (layer_heap w ! c) = None \<and> layer_id (layer_heap w ! p1) = None \<and>
          p1 < n1 \<and> p2 < n2
          \<longrightarrow> (\<exists>id1 w1 id2 w2 new1 new2.
                 Layer_start n1 client p1 w = Some (Inr id1, w1) \<and>
                 Layer_start n2 client2 p2 w1 = Some (Inr id2, w2) \<and>
                 trace w1 = trace w @ new1 \<and> trace w2 = trace w1 @ new2 \<and>
                 creates c new1 = 1 \<and> creates c new2 = 0 \<and>
                 layer_id (layer_heap w1 ! c) \<noteq> None \<and>
                 layer_heap w2 ! c = layer_heap w1 ! c))
       \<and> (c1 < length (layer_heap w) \<and> c2 < length (layer_heap w) \<and> c1 \<noteq> c2 \<and>
          layer_heap w ! c1 = layer_heap w ! c2 \<and> layer_id (layer_heap w ! c1) = None \<and>
          c1 < m1 \<and> c2 < m2
          \<longrightarrow> (\<exists>i1 v1 i2 v2 new1 new2.
                 Layer_start m1 client c1 w = Some (Inr i1, v1) \<and>
                 Layer_start m2 client2 c2 v1 = Some (Inr i2, v2) \<and>
                 trace v1 = trace w @ new1 \<and> trace v2 = trace v1 @ new2 \<and>
                 creates c1 (new1 @ new2) = 1 \<and> creates c2 (new1 @ new2) = 1 \<and>
                 layer_id (layer_heap v2 ! c1) = Some i1 \<and> layer_id (layer_heap v2 ! c2) = Some i2))"
proof (intro conjI impI)
  assume a: "p1 < length (layer_heap w) \<and> p2 < length (layer_heap w) \<and>
          (t1, c) \<in> set (base_layers (layer_heap w ! p1)) \<and>
          (t2, c) \<in> set (base_layers (layer_heap w ! p2)) \<and>
          layer_id (layer_heap w ! c) = None \<and> layer_id (layer_heap w ! p1) = None \<and>
          p1 < n1 \<and> p2 < n2"
  then have p1: "p1 < length (layer_heap w)" and p2: "p2 < length (layer_heap w)"
    and c1: "(t1, c) \<in> set (base_layers (layer_heap w ! p1))"
    and unset: "layer_id (layer_heap w ! c) = None" "layer_id (layer_heap w ! p1) = None"
    and depth: "p1 < n1" "p2 < n2"
    by simp_all
  from Layer_start_succeeds [OF wf p1 depth(1) ok] obtain id1 w1 where
    run1: "Layer_start n1 client p1 w = Some (Inr id1, w1)" by blast
  from wf p1 c1 have "snd (t1, c) < p1" unfolding wf_layers_def by blast
  then have "c < p1" by simp
  with p1 have c: "c < length (layer_heap w)" by simp
  from Layer_start_run [OF wf p1 run1] obtain new1 where r1: "layer_run w w1 new1 (Suc p1) True"
    by auto
  then have w1: "wf_layers w1" "length (layer_heap w1) = length (layer_heap w)" "trace w1 = trace w @ new1"
    by (simp_all add: layer_run_def)
  from p2 w1(2) have p2': "p2 < length (layer_heap w1)" by simp
  from Layer_start_succeeds [OF w1(1) p2' depth(2) ok2] obtain id2 w2 where
    run2: "Layer_start n2 client2 p2 w1 = Some (Inr id2, w2)" by blast
  from Layer_start_run [OF w1(1) p2' run2] obtain new2 where r2: "layer_run w1 w2 new2 (Suc p2) True"
    by auto
  then have w2: "trace w2 = trace w1 @ new2" by (simp add: layer_run_def)
  from Layer_start_realizes_bases [OF wf p1 unset(2) run1] c1
  have set1: "layer_id (layer_heap w1 ! c) \<noteq> None" by auto
  from layer_run_set [OF r1 c unset(1) set1] have n1: "creates c new1 = 1" .
  from layer_run_kept [OF r2 _ set1] c w1(2)
  have k: "layer_heap w2 ! c = layer_heap w1 ! c" "creates c new2 = 0" by simp_all
  from run1 run2 w1(3) w2 n1 k set1
  show "\<exists>id1 w1 id2 w2 new1 new2.
                 Layer_start n1 client p1 w = Some (Inr id1, w1) \<and>
                 Layer_start n2 client2 p2 w1 = Some (Inr id2, w2) \<and>
                 trace w1 = trace w @ new1 \<and> trace w2 = trace w1 @ new2 \<and>
                 creates c new1 = 1 \<and> creates c new2 = 0 \<and>
                 layer_id (layer_heap w1 ! c) \<noteq> None \<and>
                 layer_heap w2 ! c = layer_heap w1 ! c"
    by blast
next
  assume a: "c1 < length (layer_heap w) \<and> c2 < length (layer_heap w) \<and> c1 \<noteq> c2 \<and>
          layer_heap w ! c1 = layer_heap w ! c2 \<and> layer_id (layer_heap w ! c1) = None \<and>
          c1 < m1 \<and> c2 < m2"
  then have c1: "c1 < length (layer_heap w)" and c2: "c2 < length (layer_heap w)"
    and same: "layer_heap w ! c1 = layer_heap w ! c2"
    and unset1: "layer_id (layer_heap w ! c1) = None"
    and depth: "c1 < m1" "c2 < m2"
    by blast+
  from same unset1 have unset2: "layer_id (layer_heap w ! c2) = None" by simp
  note unset = unset1 unset2
  from Layer_start_succeeds [OF wf c1 depth(1) ok] obtain i1 v1 where
    run1: "Layer_start m1 client c1 w = Some (Inr i1, v1)" by blast
  from Layer_start_run [OF wf c1 run1] obtain new1 where r1: "layer_run w v1 new1 (Suc c1) True"
    and s1: "layer_id (layer_heap v1 ! c1) = Some i1"
    by auto
  then have v1: "wf_layers v1" "length (layer_heap v1) = length (layer_heap w)" "trace v1 = trace w @ new1"
    by (simp_all add: layer_run_def)
  from c2 v1(2) have c2': "c2 < length (layer_heap v1)" by simp
  from Layer_start_succeeds [OF v1(1) c2' depth(2) ok2] obtain i2 v2 where
    run2: "Layer_start m2 client2 c2 v1 = Some (Inr i2, v2)" by blast
  from Layer_start_run [OF v1(1) c2' run2] obtain new2 where r2: "layer_run v1 v2 new2 (Suc c2) True"
    and s2: "layer_id (layer_heap v2 ! c2) = Some i2"
    by auto
  then have v2: "trace v2 = trace v1 @ new2" by (simp add: layer_run_def)
  let ?b = "max (Suc c1) (Suc c2)"
  have "layer_run w v1 new1 ?b True" "layer_run v1 v2 new2 ?b True"
    using r1 r2 by (auto intro: layer_run_mono)
  then have r: "layer_run w v2 (new1 @ new2) ?b True"
    by (rule layer_run_trans)
  from layer_run_kept [OF r2, of c1] c1 v1(2) s1
  have k1: "layer_heap v2 ! c1 = layer_heap v1 ! c1" by simp
  with s1 have s1': "layer_id (layer_heap v2 ! c1) = Some i1" by simp
  from layer_run_set [OF r c1 unset(1)] s1' have n1: "creates c1 (new1 @ new2) = 1" by simp
  from layer_run_set [OF r c2 unset(2)] s2 have n2: "creates c2 (new1 @ new2) = 1" by simp
  from run1 run2 v1(3) v2 n1 n2 s1' s2
  show "\<exists>i1 v1 i2 v2 new1 new2.
                 Layer_start m1 client c1 w = Some (Inr i1, v1) \<and>
                 Layer_start m2 client2 c2 v1 = Some (Inr i2, v2) \<and>
                 trace v1 = trace w @ new1 \<and> trace v2 = trace v1 @ new2 \<and>
                 creates c1 (new1 @ new2) = 1 \<and> creates c2 (new1 @ new2) = 1 \<and>
                 layer_id (layer_heap v2 ! c1) = Some i1 \<and> layer_id (layer_heap v2 ! c2) = Some i2"
    by blast
qed


lemma Some_Inr_inject: "Some (Inr a, b) = Some (Inr c, d) \<Longrightarrow> a = c \<and> b = d"
  by simp

text \<open>
  Claim C5 in the world of four layers: the layers 1 and 2 share the base 0; the layers 0
  and 3 have the same content and receive the ids \<open>la-1\<close> and \<open>la-2\<close>.
\<close>

theorem shared_base_layer_created_once_witness:
  "(\<exists>w1 w2 new1 new2.
      Layer_start 4 (layer_stub []) 1 layers0 = Some (Inr ''la-2'', w1) \<and>
      Layer_start 4 (layer_stub []) 2 w1 = Some (Inr ''la-3'', w2) \<and>
      trace w1 = trace layers0 @ new1 \<and> trace w2 = trace w1 @ new2 \<and>
      creates 0 new1 = 1 \<and> creates 0 new2 = 0)
   \<and> (\<exists>v2 new1 new2.
      Layer_start 4 (layer_stub []) 0 layers0 = Some (Inr ''la-1'', layers1) \<and>
      Layer_start 4 (layer_stub []) 3 layers1 = Some (Inr ''la-2'', v2) \<and>
      trace layers1 = trace layers0 @ new1 \<and> trace v2 = trace layers1 @ new2 \<and>
      creates 0 (new1 @ new2) = 1 \<and> creates 3 (new1 @ new2) = 1 \<and>
      layer_id (layer_heap v2 ! 0) = Some ''la-1'' \<and> layer_id (layer_heap v2 ! 3) = Some ''la-2'')"
proof -
  let ?W1 = "layers1\<lparr>
      trace := trace layers1 @ [LayerCreateRequest 1 ''cl-1''
         (layer_definition (child_layer ''RUN a'') [\<lparr>docker_tag = ''base'', base_layer_id = ''la-1''\<rparr>])],
      layer_heap := (layer_heap layers1)[1 := (child_layer ''RUN a'')\<lparr>layer_id := Some ''la-2''\<rparr>]\<rparr>"
  let ?W2 = "?W1\<lparr>
      trace := trace ?W1 @ [LayerCreateRequest 2 ''cl-1''
         (layer_definition (child_layer ''RUN b'') [\<lparr>docker_tag = ''base'', base_layer_id = ''la-1''\<rparr>])],
      layer_heap := (layer_heap ?W1)[2 := (child_layer ''RUN b'')\<lparr>layer_id := Some ''la-3''\<rparr>]\<rparr>"
  let ?V2 = "layers1\<lparr>
      trace := trace layers1 @ [LayerCreateRequest 3 ''cl-1'' (layer_definition leaf_layer [])],
      layer_heap := (layer_heap layers1)[3 := leaf_layer\<lparr>layer_id := Some ''la-2''\<rparr>]\<rparr>"
  have four: "(4::nat) = Suc (Suc (Suc (Suc 0)))" by simp
  have e1: "Layer_start 4 (layer_stub []) 1 layers0 = Some (Inr ''la-2'', ?W1)"
    unfolding four
    by (simp add: layers1_def layers0_def leaf_layer_def child_layer_def layer_stub_def layer_create_def
      str_nat.simps digit_char_def Let_def)
  have e2: "Layer_start 4 (layer_stub []) 2 ?W1 = Some (Inr ''la-3'', ?W2)"
    unfolding four
    by (simp add: layers1_def layers0_def leaf_layer_def child_layer_def layer_stub_def layer_create_def
      str_nat.simps digit_char_def Let_def)
  have e3: "Layer_start 4 (layer_stub []) 0 layers0 = Some (Inr ''la-1'', layers1)"
    unfolding four
    by (simp add: layers1_def layers0_def leaf_layer_def child_layer_def layer_stub_def layer_create_def
      str_nat.simps digit_char_def Let_def)
  have e4: "Layer_start 4 (layer_stub []) 3 layers1 = Some (Inr ''la-2'', ?V2)"
    unfolding four
    by (simp add: layers1_def layers0_def leaf_layer_def child_layer_def layer_stub_def layer_create_def
      str_nat.simps digit_char_def Let_def)
  have ok: "\<forall>h r c d. \<exists>lid. LayerCreate (layer_stub []) (h @ [LayerCreateRequest r c d]) = Inr lid"
    by (simp add: layer_stub_def layer_create_def)
  have h: "(1::nat) < length (layer_heap layers0) \<and> (2::nat) < length (layer_heap layers0) \<and>
      (''base'', 0) \<in> set (base_layers (layer_heap layers0 ! 1)) \<and>
      (''base'', 0) \<in> set (base_layers (layer_heap layers0 ! 2)) \<and>
      layer_id (layer_heap layers0 ! 0) = None \<and> layer_id (layer_heap layers0 ! 1) = None \<and>
      (1::nat) < 4 \<and> (2::nat) < 4"
    by (simp add: layers0_def leaf_layer_def child_layer_def)
  have g: "(0::nat) < length (layer_heap layers0) \<and> (3::nat) < length (layer_heap layers0) \<and> (0::nat) \<noteq> 3 \<and>
      layer_heap layers0 ! 0 = layer_heap layers0 ! 3 \<and> layer_id (layer_heap layers0 ! 0) = None \<and>
      (0::nat) < 4 \<and> (3::nat) < 4"
    by (simp add: layers0_def leaf_layer_def child_layer_def)
  note t = shared_base_layer_created_once [OF wf_layers0 ok ok,
      of 1 2 "''base''" 0 "''base''" 4 4 0 3 4 4]
  from t h obtain id1 w1 id2 w2 new1 new2 where a:
    "Layer_start 4 (layer_stub []) 1 layers0 = Some (Inr id1, w1)"
    "Layer_start 4 (layer_stub []) 2 w1 = Some (Inr id2, w2)"
    "trace w1 = trace layers0 @ new1" "trace w2 = trace w1 @ new2"
    "creates 0 new1 = 1" "creates 0 new2 = 0"
    by blast
  from a(1) e1 have 1: "id1 = ''la-2''" "w1 = ?W1" by simp_all
  from a(2) 1(2) have "Layer_start 4 (layer_stub []) 2 ?W1 = Some (Inr id2, w2)" by (simp only:)
  from this [symmetric] e2 have "Some (Inr id2 :: error + string, w2) = Some (Inr ''la-3'', ?W2)" by (rule trans)
  note 2 = Some_Inr_inject [OF this, THEN conjunct1] Some_Inr_inject [OF this, THEN conjunct2]
  from a 1 2 have A: "\<exists>w1 w2 new1 new2.
      Layer_start 4 (layer_stub []) 1 layers0 = Some (Inr ''la-2'', w1) \<and>
      Layer_start 4 (layer_stub []) 2 w1 = Some (Inr ''la-3'', w2) \<and>
      trace w1 = trace layers0 @ new1 \<and> trace w2 = trace w1 @ new2 \<and>
      creates 0 new1 = 1 \<and> creates 0 new2 = 0"
    by blast
  from t g obtain i1 v1 i2 v2 n1 n2 where b:
    "Layer_start 4 (layer_stub []) 0 layers0 = Some (Inr i1, v1)"
    "Layer_start 4 (layer_stub []) 3 v1 = Some (Inr i2, v2)"
    "trace v1 = trace layers0 @ n1" "trace v2 = trace v1 @ n2"
    "creates 0 (n1 @ n2) = 1" "creates 3 (n1 @ n2) = 1"
    "layer_id (layer_heap v2 ! 0) = Some i1" "layer_id (layer_heap v2 ! 3) = Some i2"
    by blast
  from b(1) e3 have 3: "i1 = ''la-1''" "v1 = layers1" by simp_all
  from b(2) 3(2) have "Layer_start 4 (layer_stub []) 3 layers1 = Some (Inr i2, v2)" by (simp only:)
  from this [symmetric] e4 have "Some (Inr i2 :: error + string, v2) = Some (Inr ''la-2'', ?V2)" by (rule trans)
  note 4 = Some_Inr_inject [OF this, THEN conjunct1] Some_Inr_inject [OF this, THEN conjunct2]
  from b 3 4 have B: "\<exists>v2 new1 new2.
      Layer_start 4 (layer_stub []) 0 layers0 = Some (Inr ''la-1'', layers1) \<and>
      Layer_start 4 (layer_stub []) 3 layers1 = Some (Inr ''la-2'', v2) \<and>
      trace layers1 = trace layers0 @ new1 \<and> trace v2 = trace layers1 @ new2 \<and>
      creates 0 (new1 @ new2) = 1 \<and> creates 3 (new1 @ new2) = 1 \<and>
      layer_id (layer_heap v2 ! 0) = Some ''la-1'' \<and> layer_id (layer_heap v2 ! 3) = Some ''la-2''"
    by blast
  from A B show ?thesis by (rule conjI)
qed

end
